theory Spec2Isabelle
  imports Complex_Main "HOL-Library.AList"
begin

section \<open>JavaScript values and documents\<close>

text \<open>
  The enrollment service (\<^verbatim>\<open>src/services/enrollmentService.js\<close>) exchanges plain
  JavaScript objects with Firestore. A field value is one of the constructors below.
  The numbers of the model are the safe integers, \<open>JNum n\<close> with \<open>safe_integer n\<close> (the
  identifiers, counts and millisecond clocks of the service), and \<open>NaN\<close>: in that range a
  double holds every integer exactly, \<^verbatim>\<open>toString\<close> prints all its digits and \<^verbatim>\<open>parseInt\<close>
  reads them back. Larger magnitudes and fractions are not values of the model. A string
  is a list of code units below 256. \<open>JTimestamp t\<close> is a
  Firestore timestamp of \<open>t\<close> milliseconds, \<open>JServerTimestamp\<close> the sentinel returned
  by \<^verbatim>\<open>serverTimestamp()\<close>.
\<close>

datatype jsval =
    JUndefined
  | JNull
  | JBool bool
  | JNum int
  | JNaN
  | JStr string
  | JTimestamp int
  | JServerTimestamp

text \<open>An object (a document, the form data) is an association list, first binding wins.\<close>

type_synonym doc = "(string \<times> jsval) list"

definition get_field :: "doc \<Rightarrow> string \<Rightarrow> jsval" where
  "get_field d k = (case map_of d k of None \<Rightarrow> JUndefined | Some v \<Rightarrow> v)"

text \<open>\<^verbatim>\<open>{...base, k1: v1, k2: v2}\<close>: the later properties override the spread ones.\<close>

definition js_assign :: "doc \<Rightarrow> doc \<Rightarrow> doc" where
  "js_assign base props = foldl (\<lambda>d kv. AList.update (fst kv) (snd kv) d) base props"

fun truthy :: "jsval \<Rightarrow> bool" where
  "truthy JUndefined = False"
| "truthy JNull = False"
| "truthy (JBool b) = b"
| "truthy (JNum n) = (n \<noteq> 0)"
| "truthy JNaN = False"
| "truthy (JStr s) = (s \<noteq> [])"
| "truthy (JTimestamp t) = True"
| "truthy JServerTimestamp = True"

text \<open>\<^verbatim>\<open>a || b\<close>\<close>

definition js_or :: "jsval \<Rightarrow> jsval \<Rightarrow> jsval" where
  "js_or a b = (if truthy a then a else b)"

subsection \<open>Strings and numbers\<close>

definition digit_char :: "nat \<Rightarrow> char" where
  "digit_char d = ''0123456789'' ! d"

fun nat_digits :: "nat \<Rightarrow> string" where
  "nat_digits n = (if n < 10 then [digit_char n] else nat_digits (n div 10) @ [digit_char (n mod 10)])"

declare nat_digits.simps [simp del]

text \<open>\<^verbatim>\<open>Number.isSafeInteger(n)\<close>: at most \<^verbatim>\<open>Number.MAX_SAFE_INTEGER\<close> in magnitude\<close>

definition safe_integer :: "int \<Rightarrow> bool" where
  "safe_integer n = (- 9007199254740991 \<le> n \<and> n \<le> 9007199254740991)"

text \<open>
  \<^verbatim>\<open>n.toString()\<close> on a safe integer: all its digits. (Beyond the safe integers
  \<^verbatim>\<open>Number.prototype.toString\<close> prints the shortest digits that read back as the same double,
  in exponent form from \<^verbatim>\<open>1e21\<close> on; a property about a number that comes from outside the
  service is stated for \<open>safe_integer\<close> numbers.)
\<close>

definition int_toString :: "int \<Rightarrow> string" where
  "int_toString i = (if i < 0 then CHR ''-'' # nat_digits (nat (- i)) else nat_digits (nat i))"

text \<open>\<^verbatim>\<open>v.toString()\<close>, also the conversion of a template literal and of \<^verbatim>\<open>new Error(v)\<close>\<close>

fun js_toString :: "jsval \<Rightarrow> string" where
  "js_toString JUndefined = ''undefined''"
| "js_toString JNull = ''null''"
| "js_toString (JBool b) = (if b then ''true'' else ''false'')"
| "js_toString (JNum n) = int_toString n"
| "js_toString JNaN = ''NaN''"
| "js_toString (JStr s) = s"
| "js_toString (JTimestamp t) =
     ''Timestamp(seconds='' @ int_toString (t div 1000) @ '', nanoseconds=''
       @ int_toString ((t mod 1000) * 1000000) @ '')''"
| "js_toString JServerTimestamp = ''[object Object]''"

text \<open>White space of \<^verbatim>\<open>String.prototype.trim\<close> and of the regular expression class \<^verbatim>\<open>\s\<close>\<close>

definition js_whitespace :: "char \<Rightarrow> bool" where
  "js_whitespace c = (c \<in> set [CHR 0x09, CHR 0x0A, CHR 0x0B, CHR 0x0C, CHR 0x0D, CHR 0x20, CHR 0xA0])"

definition js_trim :: "string \<Rightarrow> string" where
  "js_trim s = rev (dropWhile js_whitespace (rev (dropWhile js_whitespace s)))"

definition is_digit :: "char \<Rightarrow> bool" where
  "is_digit c = (c \<in> set ''0123456789'')"

text \<open>The position of a character in a string of digits (its length when it is not there)\<close>

definition index_of :: "char \<Rightarrow> string \<Rightarrow> nat" where
  "index_of c xs = length (takeWhile (\<lambda>x. x \<noteq> c) xs)"

definition digit_val :: "char \<Rightarrow> nat" where
  "digit_val c = index_of c ''0123456789''"

definition is_hex_digit :: "char \<Rightarrow> bool" where
  "is_hex_digit c = (c \<in> set ''0123456789abcdefABCDEF'')"

definition hex_val :: "char \<Rightarrow> nat" where
  "hex_val c = (let i = index_of c ''0123456789abcdefABCDEF'' in if i < 16 then i else i - 6)"

definition digits_value :: "nat \<Rightarrow> (char \<Rightarrow> nat) \<Rightarrow> string \<Rightarrow> nat" where
  "digits_value base val ds = foldl (\<lambda>a c. base * a + val c) 0 ds"

text \<open>
  \<^verbatim>\<open>parseInt(s)\<close> with no radix: leading white space, a sign, then hexadecimal digits
  after \<^verbatim>\<open>0x\<close> or decimal digits; \<open>NaN\<close> when there is no digit. The result is the integer
  that the digits denote, which is the code's result while it is a safe integer.
\<close>

definition parseInt :: "string \<Rightarrow> jsval" where
  "parseInt s =
     (let s1 = dropWhile js_whitespace s;
          neg = (case s1 of [] \<Rightarrow> False | c # r \<Rightarrow> c = CHR ''-'');
          s2 = (case s1 of [] \<Rightarrow> [] | c # r \<Rightarrow> if c = CHR ''-'' \<or> c = CHR ''+'' then r else s1);
          hex = (take 2 s2 = ''0x'' \<or> take 2 s2 = ''0X'');
          ds = (if hex then takeWhile is_hex_digit (drop 2 s2) else takeWhile is_digit s2);
          n = (if hex then digits_value 16 hex_val ds else digits_value 10 digit_val ds)
      in if ds = [] then JNaN else JNum (if neg then - int n else int n))"

text \<open>
  The result of \<open>ToNumber\<close>: \<open>NaN\<close>, an infinity, or a finite value. A finite value is kept
  exact, as the mathematical value of the numeral it was read from; the comparisons below
  account for its rounding to the nearest double.
\<close>

datatype number = NaN | PosInf | NegInf | Finite rat

definition is_negative :: "string \<Rightarrow> bool" where
  "is_negative t = (case t of [] \<Rightarrow> False | c # r \<Rightarrow> c = CHR ''-'')"

definition strip_sign :: "string \<Rightarrow> string" where
  "strip_sign t = (case t of [] \<Rightarrow> [] | c # r \<Rightarrow> if c = CHR ''-'' \<or> c = CHR ''+'' then r else t)"

definition pow10 :: "int \<Rightarrow> rat" where
  "pow10 ex = (if 0 \<le> ex then 10 ^ nat ex else 1 / 10 ^ nat (- ex))"

text \<open>\<open>ExponentPart\<close>, possibly absent: \<^verbatim>\<open>e\<close> or \<^verbatim>\<open>E\<close>, a sign, digits\<close>

definition exponent_part :: "string \<Rightarrow> int option" where
  "exponent_part r =
     (case r of
        [] \<Rightarrow> Some 0
      | c # es \<Rightarrow>
          if c = CHR ''e'' \<or> c = CHR ''E'' then
            (let ds = strip_sign es
             in if ds \<noteq> [] \<and> list_all is_digit ds
                then Some (if is_negative es then - int (digits_value 10 digit_val ds)
                           else int (digits_value 10 digit_val ds))
                else None)
          else None)"

text \<open>
  \<open>StrUnsignedDecimalLiteral\<close> apart from \<^verbatim>\<open>Infinity\<close>: digits, a point and digits (one of the
  two digit groups may be empty), an exponent.
\<close>

definition unsigned_decimal :: "string \<Rightarrow> rat option" where
  "unsigned_decimal u =
     (let ip = takeWhile is_digit u;
          r1 = dropWhile is_digit u;
          dot = (case r1 of [] \<Rightarrow> False | c # r \<Rightarrow> c = CHR ''.'');
          fp = (if dot then takeWhile is_digit (tl r1) else []);
          r2 = (if dot then dropWhile is_digit (tl r1) else r1)
      in if ip = [] \<and> fp = [] then None
         else case exponent_part r2 of
                None \<Rightarrow> None
              | Some ex \<Rightarrow>
                  Some ((of_nat (digits_value 10 digit_val ip)
                         + of_nat (digits_value 10 digit_val fp) / 10 ^ length fp) * pow10 ex))"

text \<open>\<open>NonDecimalIntegerLiteral\<close>: \<^verbatim>\<open>0x\<close>, \<^verbatim>\<open>0o\<close> or \<^verbatim>\<open>0b\<close> and digits of that radix, no sign\<close>

definition radix_literal :: "string \<Rightarrow> rat option" where
  "radix_literal t =
     (let p = take 2 t; ds = drop 2 t
      in if (p = ''0x'' \<or> p = ''0X'') \<and> ds \<noteq> [] \<and> list_all is_hex_digit ds
         then Some (of_nat (digits_value 16 hex_val ds))
         else if (p = ''0o'' \<or> p = ''0O'') \<and> ds \<noteq> [] \<and> list_all (\<lambda>c. c \<in> set ''01234567'') ds
         then Some (of_nat (digits_value 8 digit_val ds))
         else if (p = ''0b'' \<or> p = ''0B'') \<and> ds \<noteq> [] \<and> list_all (\<lambda>c. c \<in> set ''01'') ds
         then Some (of_nat (digits_value 2 digit_val ds))
         else None)"

text \<open>
  \<open>StringToNumber\<close>: white space is trimmed; the empty string is 0; a radix literal, a
  signed \<^verbatim>\<open>Infinity\<close> or a signed decimal literal has its value; anything else is \<open>NaN\<close>.
\<close>

definition string_to_number :: "string \<Rightarrow> number" where
  "string_to_number s =
     (let t = js_trim s
      in if t = [] then Finite 0
         else case radix_literal t of
                Some q \<Rightarrow> Finite q
              | None \<Rightarrow>
                  if strip_sign t = ''Infinity'' then (if is_negative t then NegInf else PosInf)
                  else (case unsigned_decimal (strip_sign t) of
                          None \<Rightarrow> NaN
                        | Some q \<Rightarrow> Finite (if is_negative t then - q else q)))"

text \<open>
  \<open>ToNumber\<close>. A Firestore timestamp converts through its \<^verbatim>\<open>valueOf()\<close>, the string of its
  seconds since the year 1 and its nanoseconds; the \<^verbatim>\<open>serverTimestamp()\<close> sentinel is a
  plain object.
\<close>

fun to_number :: "jsval \<Rightarrow> number" where
  "to_number JUndefined = NaN"
| "to_number JNull = Finite 0"
| "to_number (JBool b) = Finite (if b then 1 else 0)"
| "to_number (JNum n) = Finite (of_int n)"
| "to_number JNaN = NaN"
| "to_number (JStr s) = string_to_number s"
| "to_number (JTimestamp t) = Finite (of_int (t + 62135596800000) / 1000)"
| "to_number JServerTimestamp = NaN"

text \<open>
  \<^verbatim>\<open>v < 1\<close> and \<^verbatim>\<open>v > 120\<close>, false when \<open>v\<close> converts to \<open>NaN\<close>. The comparison is made on the
  double nearest to the value (ties to even): that double is below 1 exactly for the
  values below \<open>1 - 1 / 2 ^ 54\<close>, halfway between 1 and the double before it, and above 120
  exactly for the values above \<open>120 + 1 / 2 ^ 47\<close>. For an integer, \<open>n < 1\<close> and \<open>n > 120\<close>.
\<close>

definition js_lt_1 :: "jsval \<Rightarrow> bool" where
  "js_lt_1 v =
     (case to_number v of
        NaN \<Rightarrow> False | PosInf \<Rightarrow> False | NegInf \<Rightarrow> True
      | Finite q \<Rightarrow> q < 1 - 1 / 2 ^ 54)"

definition js_gt_120 :: "jsval \<Rightarrow> bool" where
  "js_gt_120 v =
     (case to_number v of
        NaN \<Rightarrow> False | PosInf \<Rightarrow> True | NegInf \<Rightarrow> False
      | Finite q \<Rightarrow> 120 + 1 / 2 ^ 47 < q)"

definition lower_char :: "char \<Rightarrow> char" where
  "lower_char c =
     (let n = (of_char c :: nat)
      in if (65 \<le> n \<and> n \<le> 90) \<or> (192 \<le> n \<and> n \<le> 222 \<and> n \<noteq> 215) then char_of (n + 32) else c)"

definition toLowerCase :: "string \<Rightarrow> string" where
  "toLowerCase s = map lower_char s"

fun starts_with :: "string \<Rightarrow> string \<Rightarrow> bool" where
  "starts_with s [] = True"
| "starts_with [] (p # ps) = False"
| "starts_with (c # cs) (p # ps) = (c = p \<and> starts_with cs ps)"

text \<open>\<^verbatim>\<open>s.includes(p)\<close>\<close>

fun js_includes :: "string \<Rightarrow> string \<Rightarrow> bool" where
  "js_includes [] p = (p = [])"
| "js_includes (c # cs) p = (starts_with (c # cs) p \<or> js_includes cs p)"

text \<open>\<^verbatim>\<open>s.padStart(n, c)\<close> and \<^verbatim>\<open>s.slice(-n)\<close>\<close>

definition padStart :: "nat \<Rightarrow> char \<Rightarrow> string \<Rightarrow> string" where
  "padStart n c s = replicate (n - length s) c @ s"

definition slice_last :: "nat \<Rightarrow> string \<Rightarrow> string" where
  "slice_last n s = drop (length s - n) s"

section \<open>The store and the environment of a call\<close>

text \<open>
  Firestore holds, for every gym, the presence documents \<^verbatim>\<open>gyms/g/devices/d\<close>, the
  single-slot mailboxes \<^verbatim>\<open>gyms/g/devices/d/commands/enroll\<close> and the collection
  \<^verbatim>\<open>gyms/g/members\<close>. A read can fail (the \<^verbatim>\<open>catch\<close> blocks of \<^verbatim>\<open>checkDeviceStatus\<close>
  and \<^verbatim>\<open>generateGymMemberId\<close>): \<open>device_read_error\<close> and \<open>members_read_error\<close> hold the
  message of the error then. \<open>now\<close> is the clock in milliseconds (\<^verbatim>\<open>new Date()\<close>,
  \<^verbatim>\<open>Date.now()\<close>; one call reads it within the same millisecond) and \<open>random\<close> the value
  of \<^verbatim>\<open>Math.random().toString(36).substr(2, 9)\<close>. The store accepts every \<^verbatim>\<open>setDoc\<close>.
\<close>

record env =
  devices :: "string \<times> string \<Rightarrow> doc option"
  commands :: "string \<times> string \<Rightarrow> doc option"
  members :: "string \<Rightarrow> (string \<times> doc) list"
  device_read_error :: "string option"
  members_read_error :: "string option"
  now :: int
  random :: string

datatype path =
    DevicePath string string
  | CommandPath string string
  | MemberPath string string

text \<open>The writes a call sends to the store, in order: \<^verbatim>\<open>setDoc\<close> replaces, \<^verbatim>\<open>updateDoc\<close> merges.\<close>

datatype store_write = SetDoc path doc | UpdateDoc path doc

fun apply_write :: "env \<Rightarrow> store_write \<Rightarrow> env" where
  "apply_write e (SetDoc (DevicePath g d) v) = e\<lparr>devices := (devices e)((g, d) \<mapsto> v)\<rparr>"
| "apply_write e (SetDoc (CommandPath g d) v) = e\<lparr>commands := (commands e)((g, d) \<mapsto> v)\<rparr>"
| "apply_write e (SetDoc (MemberPath g k) v) =
     e\<lparr>members := (members e)(g := AList.update k v (members e g))\<rparr>"
| "apply_write e (UpdateDoc (DevicePath g d) v) =
     (case devices e (g, d) of None \<Rightarrow> e
      | Some old \<Rightarrow> e\<lparr>devices := (devices e)((g, d) \<mapsto> js_assign old v)\<rparr>)"
| "apply_write e (UpdateDoc (CommandPath g d) v) =
     (case commands e (g, d) of None \<Rightarrow> e
      | Some old \<Rightarrow> e\<lparr>commands := (commands e)((g, d) \<mapsto> js_assign old v)\<rparr>)"
| "apply_write e (UpdateDoc (MemberPath g k) v) =
     (case map_of (members e g) k of None \<Rightarrow> e
      | Some old \<Rightarrow> e\<lparr>members := (members e)(g := AList.update k (js_assign old v) (members e g))\<rparr>)"

fun is_command_write :: "store_write \<Rightarrow> bool" where
  "is_command_write (SetDoc (CommandPath g d) v) = True"
| "is_command_write (UpdateDoc (CommandPath g d) v) = True"
| "is_command_write w = False"

fun is_member_write :: "store_write \<Rightarrow> bool" where
  "is_member_write (SetDoc (MemberPath g k) v) = True"
| "is_member_write (UpdateDoc (MemberPath g k) v) = True"
| "is_member_write w = False"

section \<open>Utility functions\<close>

text \<open>
  \<^verbatim>\<open>validateMemberData\<close>: a thrown \<^verbatim>\<open>Error\<close> is its message. \<^verbatim>\<open>memberData.Name.trim\<close> on
  a truthy value that is no string is a \<^verbatim>\<open>TypeError\<close>.
\<close>

definition phone_char :: "char \<Rightarrow> bool" where
  "phone_char c = (is_digit c \<or> js_whitespace c \<or> c \<in> set ''-+()'')"

text \<open>\<^verbatim>\<open>/^[\d\s\-\+\(\)]+$/.test(v)\<close>\<close>

definition phone_regex_test :: "jsval \<Rightarrow> bool" where
  "phone_regex_test v = (js_toString v \<noteq> [] \<and> list_all phone_char (js_toString v))"

definition validateMemberData :: "doc \<Rightarrow> string + unit" where
  "validateMemberData memberData =
     (let name = get_field memberData ''Name'';
          age = get_field memberData ''Age'';
          phone = get_field memberData ''Phone_Number''
      in if \<not> truthy name then Inl ''Missing required fields: Name''
         else case name of
           JStr s \<Rightarrow>
             if js_trim s = [] then Inl ''Missing required fields: Name''
             else if length s < 2 then Inl ''Name must be at least 2 characters long''
             else if length s > 50 then Inl ''Name must be less than 50 characters long''
             else if truthy age \<and> (js_lt_1 age \<or> js_gt_120 age)
               then Inl ''Age must be between 1 and 120''
             else if truthy phone \<and> \<not> phone_regex_test phone
               then Inl ''Phone number contains invalid characters''
             else Inr ()
         | _ \<Rightarrow> Inl ''memberData[field].trim is not a function'')"

definition generateGymMemberId :: "env \<Rightarrow> string \<Rightarrow> string" where
  "generateGymMemberId e gymId =
     (case members_read_error e of
        None \<Rightarrow> ''FN'' @ padStart 3 (CHR ''0'') (int_toString (int (length (members e gymId)) + 1))
      | Some err \<Rightarrow> ''FN'' @ slice_last 6 (int_toString (now e)))"

definition getErrorType :: "string \<Rightarrow> string" where
  "getErrorType msg =
     (let message = toLowerCase msg
      in if js_includes message ''timeout'' then ''timeout''
         else if js_includes message ''device'' \<and> js_includes message ''offline'' then ''device_offline''
         else if js_includes message ''firebase'' \<or> js_includes message ''firestore'' then ''database_error''
         else if js_includes message ''network'' \<or> js_includes message ''connection'' then ''network_error''
         else if js_includes message ''validation'' \<or> js_includes message ''required'' then ''validation_error''
         else if js_includes message ''cancelled'' then ''user_cancelled''
         else if js_includes message ''sensor'' \<or> js_includes message ''fingerprint'' then ''hardware_error''
         else ''unknown_error'')"

section \<open>Device management\<close>

record deviceStatus =
  available :: bool
  reason :: string
  deviceInfo :: "doc option"

text \<open>
  \<^verbatim>\<open>deviceData.last_seen?.toDate()\<close>: \<open>Inr None\<close> is \<^verbatim>\<open>undefined\<close>, \<open>Inl\<close> the \<^verbatim>\<open>TypeError\<close>
  of a value without \<^verbatim>\<open>toDate\<close>.
\<close>

fun last_seen_toDate :: "jsval \<Rightarrow> string + int option" where
  "last_seen_toDate JUndefined = Inr None"
| "last_seen_toDate JNull = Inr None"
| "last_seen_toDate (JTimestamp t) = Inr (Some t)"
| "last_seen_toDate v = Inl ''deviceData.last_seen?.toDate is not a function''"

definition checkDeviceStatus :: "env \<Rightarrow> string \<Rightarrow> string \<Rightarrow> deviceStatus" where
  "checkDeviceStatus e gymId deviceId =
     (case device_read_error e of
        Some err \<Rightarrow>
          \<lparr>available = False, reason = ''Error checking device: '' @ err, deviceInfo = None\<rparr>
      | None \<Rightarrow>
         (case devices e (gymId, deviceId) of
            None \<Rightarrow>
              \<lparr>available = False,
               reason = ''Device not found - check device ID and ensure ESP32 is registered'',
               deviceInfo = None\<rparr>
          | Some deviceData \<Rightarrow>
             (case last_seen_toDate (get_field deviceData ''last_seen'') of
                Inl err \<Rightarrow>
                  \<lparr>available = False, reason = ''Error checking device: '' @ err, deviceInfo = None\<rparr>
              | Inr lastSeen \<Rightarrow>
                  let timeDiff = (case lastSeen of None \<Rightarrow> None | Some t \<Rightarrow> Some (now e - t))
                  in if (case timeDiff of None \<Rightarrow> False | Some td \<Rightarrow> td > 120000)
                     then \<lparr>available = False,
                           reason = ''Device offline - last seen ''
                             @ (case timeDiff of None \<Rightarrow> ''NaN'' | Some td \<Rightarrow> int_toString (td div 1000))
                             @ ''s ago'',
                           deviceInfo = None\<rparr>
                     else if get_field deviceData ''status'' \<noteq> JStr ''online''
                     then \<lparr>available = False,
                           reason = ''Device status: '' @ js_toString (get_field deviceData ''status''),
                           deviceInfo = None\<rparr>
                     else \<lparr>available = True,
                           reason = ''Device is online and ready'',
                           deviceInfo = Some
                             [(''location'', get_field deviceData ''location''),
                              (''version'', get_field deviceData ''version''),
                              (''capabilities'', get_field deviceData ''capabilities''),
                              (''uptime'', get_field deviceData ''uptime_seconds'')]\<rparr>)))"

text \<open>
  The \<^verbatim>\<open>isOnline\<close> field that \<^verbatim>\<open>getAvailableDevices\<close> computes for one presence document:
  \<^verbatim>\<open>timeDiff = lastSeen ? now - lastSeen : Infinity\<close>, \<^verbatim>\<open>isOnline: timeDiff < 120000\<close>.
\<close>

definition getAvailableDevices_isOnline :: "env \<Rightarrow> doc \<Rightarrow> string + bool" where
  "getAvailableDevices_isOnline e deviceData =
     (case last_seen_toDate (get_field deviceData ''last_seen'') of
        Inl err \<Rightarrow> Inl err
      | Inr None \<Rightarrow> Inr False
      | Inr (Some t) \<Rightarrow> Inr (now e - t < 120000))"

section \<open>Waiting for the device\<close>

datatype ('e, 'a) promise = Pending | Resolved 'a | Rejected 'e

record enrollment_result =
  success :: bool
  fingerprintId :: string
  memberName :: jsval
  message :: jsval
  enrollmentTime :: jsval
  deviceId :: string

text \<open>
  What the runtime delivers to one call of \<^verbatim>\<open>waitForEnrollmentCompletion\<close>: a snapshot of
  the mailbox document (\<open>None\<close> when it does not exist), an error of the listener, or the
  firing of the timer.
\<close>

datatype event = Snapshot "doc option" | ListenerError string | TimeoutFired

text \<open>
  The state of one call: the promise, the armed timer with its delay in milliseconds
  (\<open>None\<close> once cleared or fired) and whether the \<^verbatim>\<open>onSnapshot\<close> listener is attached.
\<close>

record wait_state =
  outcome :: "(string, enrollment_result) promise"
  timer :: "nat option"
  listening :: bool

text \<open>A promise settles once: \<^verbatim>\<open>resolve\<close> and \<^verbatim>\<open>reject\<close> on a settled promise do nothing.\<close>

definition resolve :: "enrollment_result \<Rightarrow> wait_state \<Rightarrow> wait_state" where
  "resolve r s = (case outcome s of Pending \<Rightarrow> s\<lparr>outcome := Resolved r\<rparr> | _ \<Rightarrow> s)"

definition reject :: "string \<Rightarrow> wait_state \<Rightarrow> wait_state" where
  "reject m s = (case outcome s of Pending \<Rightarrow> s\<lparr>outcome := Rejected m\<rparr> | _ \<Rightarrow> s)"

definition clearTimeout :: "wait_state \<Rightarrow> wait_state" where
  "clearTimeout s = s\<lparr>timer := None\<rparr>"

definition unsubscribe :: "wait_state \<Rightarrow> wait_state" where
  "unsubscribe s = s\<lparr>listening := False\<rparr>"

definition wait_start :: wait_state where
  "wait_start = \<lparr>outcome = Pending, timer = Some 180000, listening = True\<rparr>"

text \<open>The snapshot callback of \<^verbatim>\<open>waitForEnrollmentCompletion\<close>\<close>

definition on_snapshot :: "string \<Rightarrow> string \<Rightarrow> doc option \<Rightarrow> wait_state \<Rightarrow> wait_state" where
  "on_snapshot tempId dev snap s =
     (case snap of
        None \<Rightarrow> s
      | Some data \<Rightarrow>
          if get_field data ''tempId'' = JStr tempId then
            if get_field data ''status'' = JStr ''completed'' \<and> truthy (get_field data ''fingerprintId'')
            then resolve
                   \<lparr>success = True,
                    fingerprintId = js_toString (get_field data ''fingerprintId''),
                    memberName = get_field data ''memberName'',
                    message = js_or (get_field data ''message'') (JStr ''Enrollment completed successfully''),
                    enrollmentTime = get_field data ''timestamp'',
                    deviceId = dev\<rparr>
                   (unsubscribe (clearTimeout s))
            else if get_field data ''status'' = JStr ''failed''
            then reject
                   (js_toString (js_or (get_field data ''message'') (JStr ''Enrollment failed - unknown error'')))
                   (unsubscribe (clearTimeout s))
            else if get_field data ''status'' = JStr ''in_progress'' then s
            else if get_field data ''status'' = JStr ''cancelled''
            then reject ''Enrollment was cancelled'' (unsubscribe (clearTimeout s))
            else s
          else s)"

text \<open>The error callback; Firestore detaches a listener that has reported an error.\<close>

definition on_listener_error :: "string \<Rightarrow> wait_state \<Rightarrow> wait_state" where
  "on_listener_error err s =
     (reject (''Firebase connection error: '' @ err) (clearTimeout s))\<lparr>listening := False\<rparr>"

text \<open>The timer callback\<close>

definition on_timeout :: "wait_state \<Rightarrow> wait_state" where
  "on_timeout s =
     reject ''Enrollment timeout - ESP32 device did not respond within 3 minutes'' (unsubscribe s)"

text \<open>
  The runtime calls a callback only while its source is live: the listener while it is
  attached, the timer while it is armed (and firing disarms it).
\<close>

fun deliver :: "string \<Rightarrow> string \<Rightarrow> wait_state \<Rightarrow> event \<Rightarrow> wait_state" where
  "deliver tempId dev s (Snapshot snap) = (if listening s then on_snapshot tempId dev snap s else s)"
| "deliver tempId dev s (ListenerError err) = (if listening s then on_listener_error err s else s)"
| "deliver tempId dev s TimeoutFired =
     (case timer s of None \<Rightarrow> s | Some ms \<Rightarrow> on_timeout (s\<lparr>timer := None\<rparr>))"

definition enrollment_wait :: "string \<Rightarrow> string \<Rightarrow> event list \<Rightarrow> wait_state" where
  "enrollment_wait tempId dev events = foldl (deliver tempId dev) wait_start events"

definition waitForEnrollmentCompletion ::
    "string \<Rightarrow> string \<Rightarrow> string \<Rightarrow> event list \<Rightarrow> (string, enrollment_result) promise" where
  "waitForEnrollmentCompletion gymId dev tempId events = outcome (enrollment_wait tempId dev events)"

section \<open>The enrollment workflow\<close>

text \<open>
  The value thrown by the \<^verbatim>\<open>catch\<close> block of \<^verbatim>\<open>createMemberAndStartEnrollment\<close> (its
  \<^verbatim>\<open>timestamp\<close>, a reading of the wall clock, is left out).
\<close>

record enhancedError =
  err_message :: string
  err_type :: string
  err_gymId :: string
  err_deviceId :: string
  err_memberName :: jsval

definition enhance :: "string \<Rightarrow> string \<Rightarrow> doc \<Rightarrow> string \<Rightarrow> enhancedError" where
  "enhance gymId dev memberData msg =
     \<lparr>err_message = msg, err_type = getErrorType msg, err_gymId = gymId, err_deviceId = dev,
      err_memberName = get_field memberData ''Name''\<rparr>"

record final_result = enrollment_result +
  memberId :: string
  gymMemberId :: jsval

definition tempEnrollmentId :: "env \<Rightarrow> string" where
  "tempEnrollmentId e = ''temp_'' @ int_toString (now e) @ ''_'' @ random e"

definition enrollmentCommand :: "env \<Rightarrow> doc \<Rightarrow> doc" where
  "enrollmentCommand e memberData =
     [(''status'', JStr ''pending''),
      (''tempId'', JStr (tempEnrollmentId e)),
      (''memberName'', get_field memberData ''Name''),
      (''timestamp'', JServerTimestamp),
      (''requestedBy'', JStr ''react_app'')]"

definition finalMemberData :: "env \<Rightarrow> string \<Rightarrow> doc \<Rightarrow> string \<Rightarrow> string \<Rightarrow> doc" where
  "finalMemberData e gymId memberData dev fid =
     js_assign
       (js_assign memberData
          [(''gymMemberId'',
            js_or (get_field memberData ''gymMemberId'') (JStr (generateGymMemberId e gymId)))])
       [(''fingerprintId'', parseInt fid),
        (''id'', JStr fid),
        (''createdAt'', JServerTimestamp),
        (''updatedAt'', JServerTimestamp),
        (''enrollmentStatus'', JStr ''completed''),
        (''enrolledBy'', JStr dev),
        (''enrollmentDate'', JServerTimestamp)]"

text \<open>
  \<^verbatim>\<open>createMemberAndStartEnrollment(gymId, memberData, deviceId)\<close>, run against the store
  \<open>e\<close> and the events that the runtime delivers while it waits. It returns the state of
  its promise once the events are consumed, and the writes it has sent.
\<close>

definition createMemberAndStartEnrollment ::
    "env \<Rightarrow> string \<Rightarrow> doc \<Rightarrow> string \<Rightarrow> event list
       \<Rightarrow> (enhancedError, final_result) promise \<times> store_write list" where
  "createMemberAndStartEnrollment e gymId memberData dev events =
     (case validateMemberData memberData of
        Inl err \<Rightarrow> (Rejected (enhance gymId dev memberData err), [])
      | Inr u \<Rightarrow>
          (let status = checkDeviceStatus e gymId dev
           in if \<not> available status
              then (Rejected (enhance gymId dev memberData
                      (''Device '' @ dev @ '' is not available: '' @ reason status)), [])
              else
                (let command = SetDoc (CommandPath gymId dev) (enrollmentCommand e memberData)
                 in (case waitForEnrollmentCompletion gymId dev (tempEnrollmentId e) events of
                       Pending \<Rightarrow> (Pending, [command])
                     | Rejected err \<Rightarrow> (Rejected (enhance gymId dev memberData err), [command])
                     | Resolved result \<Rightarrow>
                         if success result \<and> truthy (JStr (fingerprintId result))
                         then
                           (let final = finalMemberData e gymId memberData dev (fingerprintId result)
                            in (Resolved
                                  \<lparr>success = success result,
                                   fingerprintId = fingerprintId result,
                                   memberName = memberName result,
                                   message = JStr (''Member ''
                                     @ js_toString (get_field memberData ''Name'')
                                     @ '' enrolled successfully with Fingerprint ID: ''
                                     @ fingerprintId result),
                                   enrollmentTime = enrollmentTime result,
                                   deviceId = deviceId result,
                                   memberId = fingerprintId result,
                                   gymMemberId = get_field final ''gymMemberId''\<rparr>,
                                [command, SetDoc (MemberPath gymId (fingerprintId result)) final]))
                         else (Rejected (enhance gymId dev memberData
                                 (js_toString
                                    (js_or (message result) (JStr ''Enrollment failed on the device.'')))),
                               [command])))))"

text \<open>
  \<^verbatim>\<open>cancelEnrollment(gymId, deviceId)\<close>: \<^verbatim>\<open>updateDoc\<close> fails on a document that does not
  exist, and the \<^verbatim>\<open>catch\<close> block rethrows.
\<close>

definition cancelEnrollment :: "env \<Rightarrow> string \<Rightarrow> string \<Rightarrow> (string + unit) \<times> store_write list" where
  "cancelEnrollment e gymId dev =
     (case commands e (gymId, dev) of
        None \<Rightarrow> (Inl ''Failed to cancel enrollment'', [])
      | Some old \<Rightarrow>
          (Inr (),
           [UpdateDoc (CommandPath gymId dev)
              [(''status'', JStr ''cancelled''),
               (''timestamp'', JServerTimestamp),
               (''cancelledBy'', JStr ''react_app'')]]))"

section \<open>Vocabulary of the properties\<close>

text \<open>
  The states that a call of \<^verbatim>\<open>waitForEnrollmentCompletion\<close> can be in: pending with the
  listener attached and the timer armed, or settled with both released.
\<close>

definition wait_inv :: "wait_state \<Rightarrow> bool" where
  "wait_inv s =
     (if outcome s = Pending then listening s \<and> timer s \<noteq> None
      else \<not> listening s \<and> timer s = None)"

text \<open>The value that the success branch of the snapshot callback resolves with\<close>

definition resolved_with :: "string \<Rightarrow> doc \<Rightarrow> enrollment_result" where
  "resolved_with dev data =
     \<lparr>success = True,
      fingerprintId = js_toString (get_field data ''fingerprintId''),
      memberName = get_field data ''memberName'',
      message = js_or (get_field data ''message'') (JStr ''Enrollment completed successfully''),
      enrollmentTime = get_field data ''timestamp'',
      deviceId = dev\<rparr>"

text \<open>An update that the success branch of the snapshot callback takes for attempt \<open>tempId\<close>\<close>

definition completed_update :: "string \<Rightarrow> doc \<Rightarrow> bool" where
  "completed_update tempId data =
     (get_field data ''tempId'' = JStr tempId \<and> get_field data ''status'' = JStr ''completed''
      \<and> truthy (get_field data ''fingerprintId''))"

definition terminal_status :: "doc \<Rightarrow> bool" where
  "terminal_status data =
     (get_field data ''status'' \<in> set [JStr ''completed'', JStr ''failed'', JStr ''cancelled''])"

text \<open>
  An event that is neither an update with the attempt's \<open>tempId\<close> and a terminal status, nor
  a listener error, nor the timer.
\<close>

fun quiet :: "string \<Rightarrow> event \<Rightarrow> bool" where
  "quiet tempId (Snapshot None) = True"
| "quiet tempId (Snapshot (Some data)) =
     (\<not> (get_field data ''tempId'' = JStr tempId \<and> terminal_status data))"
| "quiet tempId (ListenerError err) = False"
| "quiet tempId TimeoutFired = False"

text \<open>An update that carries the \<open>tempId\<close> of another attempt (or none)\<close>

definition foreign :: "string \<Rightarrow> event \<Rightarrow> bool" where
  "foreign tempId ev =
     (case ev of Snapshot (Some data) \<Rightarrow> get_field data ''tempId'' \<noteq> JStr tempId | _ \<Rightarrow> False)"






subsection \<open>A concrete gym\<close>

text \<open>
  One gym with one scanner that reported a heartbeat one second ago, no member yet and an
  empty mailbox; the form data of Alice; updates that the device agent may write.
\<close>

definition gym1_env :: env where
  "gym1_env =
     \<lparr>devices = (\<lambda>p. if p = (''gym1'', ''dev1'')
                      then Some [(''status'', JStr ''online''), (''last_seen'', JTimestamp 1000)]
                      else None),
      commands = (\<lambda>p. None),
      members = (\<lambda>g. []),
      device_read_error = None,
      members_read_error = None,
      now = 2000,
      random = ''abc123xyz''\<rparr>"

definition alice :: doc where
  "alice = [(''Name'', JStr ''Alice'')]"

definition device_update :: "string \<Rightarrow> string \<Rightarrow> doc \<Rightarrow> doc" where
  "device_update tempId status extra = [(''status'', JStr status), (''tempId'', JStr tempId)] @ extra"

definition gym1_waiting_env :: env where
  "gym1_waiting_env =
     apply_write gym1_env (SetDoc (CommandPath ''gym1'' ''dev1'') (enrollmentCommand gym1_env alice))"

definition gym1_silent_env :: env where
  "gym1_silent_env =
     gym1_env\<lparr>devices := (\<lambda>p. if p = (''gym1'', ''dev1'') then Some [(''status'', JStr ''online'')] else None)\<rparr>"



definition alice_id7 :: doc where
  "alice_id7 = [(''Name'', JStr ''Alice''), (''gymMemberId'', JStr ''7'')]"

definition gym1_command :: doc where
  "gym1_command =
     [(''status'', JStr ''pending''), (''tempId'', JStr ''temp_2000_abc123xyz''),
      (''memberName'', JStr ''Alice''), (''timestamp'', JServerTimestamp),
      (''requestedBy'', JStr ''react_app'')]"

definition completed_with :: "int \<Rightarrow> doc" where
  "completed_with n = device_update ''temp_2000_abc123xyz'' ''completed'' [(''fingerprintId'', JNum n)]"

definition alice_member7 :: doc where
  "alice_member7 =
     [(''Name'', JStr ''Alice''), (''gymMemberId'', JStr ''FN001''), (''fingerprintId'', JNum 7),
      (''id'', JStr ''7''), (''createdAt'', JServerTimestamp), (''updatedAt'', JServerTimestamp),
      (''enrollmentStatus'', JStr ''completed''), (''enrolledBy'', JStr ''dev1''),
      (''enrollmentDate'', JServerTimestamp)]"

definition gym1_cancelled :: doc where
  "gym1_cancelled =
     [(''status'', JStr ''cancelled''), (''tempId'', JStr ''temp_2000_abc123xyz''),
      (''memberName'', JStr ''Alice''), (''timestamp'', JServerTimestamp),
      (''requestedBy'', JStr ''react_app''), (''cancelledBy'', JStr ''react_app'')]"

definition alice_id7_member :: doc where
  "alice_id7_member =
     [(''Name'', JStr ''Alice''), (''gymMemberId'', JStr ''7''), (''fingerprintId'', JNum 7),
      (''id'', JStr ''7''), (''createdAt'', JServerTimestamp), (''updatedAt'', JServerTimestamp),
      (''enrollmentStatus'', JStr ''completed''), (''enrolledBy'', JStr ''dev1''),
      (''enrollmentDate'', JServerTimestamp)]"

section \<open>Properties\<close>

subsection \<open>Printing and parsing integers\<close>

lemma digit_char_cases: "d < 10 \<Longrightarrow> is_digit (digit_char d) \<and> digit_val (digit_char d) = d"
proof -
  assume "d < 10"
  then have "d \<in> {0, 1, 2, 3, 4, 5, 6, 7, 8, 9}" by auto
  then show ?thesis
    by (auto simp: is_digit_def digit_char_def digit_val_def index_of_def)
qed

lemma nat_digits_nonempty: "nat_digits n \<noteq> []"
  by (subst nat_digits.simps) simp

lemma nat_digits_all_digits: "list_all is_digit (nat_digits n)"
proof (induction n rule: nat_digits.induct)
  case (1 n)
  show ?case
  proof (cases "n < 10")
    case True
    then show ?thesis by (subst nat_digits.simps) (simp add: digit_char_cases)
  next
    case False
    with 1 have "list_all is_digit (nat_digits (n div 10))" by simp
    moreover have "is_digit (digit_char (n mod 10))" by (simp add: digit_char_cases)
    ultimately show ?thesis using False by (subst nat_digits.simps) simp
  qed
qed

lemma digits_value_snoc:
  "digits_value b val (ds @ [c]) = b * digits_value b val ds + val c"
  by (simp add: digits_value_def)

lemma digits_value_nat_digits: "digits_value 10 digit_val (nat_digits n) = n"
proof (induction n rule: nat_digits.induct)
  case (1 n)
  show ?case
  proof (cases "n < 10")
    case True
    then show ?thesis
      by (subst nat_digits.simps) (simp add: digits_value_def digit_char_cases)
  next
    case False
    with 1 have "digits_value 10 digit_val (nat_digits (n div 10)) = n div 10" by simp
    moreover have "digit_val (digit_char (n mod 10)) = n mod 10" by (simp add: digit_char_cases)
    ultimately show ?thesis using False
      by (subst nat_digits.simps) (simp add: digits_value_snoc)
  qed
qed

lemma digit_not_whitespace: "is_digit c \<Longrightarrow> \<not> js_whitespace c"
  by (auto simp: is_digit_def js_whitespace_def)

lemma digit_not_sign: "is_digit c \<Longrightarrow> c \<noteq> CHR ''-'' \<and> c \<noteq> CHR ''+'' \<and> c \<noteq> CHR ''x'' \<and> c \<noteq> CHR ''X'' \<and> c \<noteq> CHR ''F''"
  by (auto simp: is_digit_def)

lemma parse_digits:
  assumes "ds \<noteq> []" "list_all is_digit ds"
  shows "takeWhile is_digit ds = ds" "\<not> (take 2 ds = ''0x'' \<or> take 2 ds = ''0X'')"
proof -
  show "takeWhile is_digit ds = ds" using assms(2) by (simp add: list_all_iff)
  show "\<not> (take 2 ds = ''0x'' \<or> take 2 ds = ''0X'')"
  proof (cases ds)
    case Nil with assms show ?thesis by simp
  next
    case (Cons a as)
    show ?thesis
    proof (cases as)
      case Nil with Cons show ?thesis by simp
    next
      case (Cons b bs)
      with \<open>ds = a # as\<close> assms(2) have "is_digit b" by simp
      then have "b \<noteq> CHR ''x'' \<and> b \<noteq> CHR ''X''" by (simp add: digit_not_sign)
      with Cons \<open>ds = a # as\<close> show ?thesis by simp
    qed
  qed
qed

lemma parseInt_digits:
  assumes "ds \<noteq> []" "list_all is_digit ds"
  shows "parseInt ds = JNum (int (digits_value 10 digit_val ds))"
    and "parseInt (CHR ''-'' # ds) = JNum (- int (digits_value 10 digit_val ds))"
proof -
  from assms obtain c cs where ds: "ds = c # cs" and c: "is_digit c" by (cases ds) auto
  have nw: "\<not> js_whitespace c" and ns: "c \<noteq> CHR ''-''" "c \<noteq> CHR ''+''"
    using c by (simp_all add: digit_not_whitespace digit_not_sign)
  have h1: "dropWhile js_whitespace ds = ds" using ds nw by simp
  have h2: "(case ds of [] \<Rightarrow> False | c # r \<Rightarrow> c = CHR ''-'') = False" using ds ns by simp
  have h3: "(case ds of [] \<Rightarrow> [] | c # r \<Rightarrow> if c = CHR ''-'' \<or> c = CHR ''+'' then r else ds) = ds"
    using ds ns by simp
  have h4: "(take 2 ds = ''0x'' \<or> take 2 ds = ''0X'') = False"
    using parse_digits(2) [OF assms] by simp
  have h5: "takeWhile is_digit ds = ds" by (rule parse_digits(1) [OF assms])
  have h6: "(ds = []) = False" using assms(1) by simp
  show "parseInt ds = JNum (int (digits_value 10 digit_val ds))"
    by (simp only: parseInt_def Let_def h1 h2 h3 h4 h5 h6 if_False)
  have m1: "dropWhile js_whitespace (CHR ''-'' # ds) = CHR ''-'' # ds"
    by (simp add: js_whitespace_def)
  have m2: "(case CHR ''-'' # ds of [] \<Rightarrow> False | c # r \<Rightarrow> c = CHR ''-'') = True" by simp
  have m3: "(case CHR ''-'' # ds of [] \<Rightarrow> [] | c # r \<Rightarrow>
               if c = CHR ''-'' \<or> c = CHR ''+'' then r else CHR ''-'' # ds) = ds" by simp
  show "parseInt (CHR ''-'' # ds) = JNum (- int (digits_value 10 digit_val ds))"
    by (simp only: parseInt_def Let_def m1 m2 m3 h4 h5 h6 if_False if_True)
qed

lemma parseInt_int_toString: "parseInt (int_toString i) = JNum i"
  using parseInt_digits [OF nat_digits_nonempty nat_digits_all_digits]
  by (simp add: int_toString_def digits_value_nat_digits)

lemma int_toString_nonempty: "int_toString i \<noteq> []"
  by (simp add: int_toString_def nat_digits_nonempty)

lemma int_toString_not_F: "CHR ''F'' # s \<noteq> int_toString i"
proof
  assume eq: "CHR ''F'' # s = int_toString i"
  show False
  proof (cases "i < 0")
    case True
    with eq show False by (simp add: int_toString_def)
  next
    case False
    with eq have "nat_digits (nat i) = CHR ''F'' # s" by (simp add: int_toString_def)
    with nat_digits_all_digits [of "nat i"] have "is_digit CHR ''F''" by simp
    then show False by (simp add: is_digit_def)
  qed
qed

subsection \<open>The waiting state machine\<close>

lemmas wait_defs = on_snapshot_def on_listener_error_def on_timeout_def resolve_def reject_def
  clearTimeout_def unsubscribe_def

lemma deliver_closed: "\<not> listening s \<Longrightarrow> timer s = None \<Longrightarrow> deliver tempId dev s ev = s"
  by (cases ev) simp_all

lemma foldl_deliver_closed:
  "\<not> listening s \<Longrightarrow> timer s = None \<Longrightarrow> foldl (deliver tempId dev) s evs = s"
  by (induction evs) (simp_all add: deliver_closed)

lemma wait_inv_start: "wait_inv wait_start"
  by (simp add: wait_inv_def wait_start_def)

lemma wait_inv_deliver: "wait_inv s \<Longrightarrow> wait_inv (deliver tempId dev s ev)"
  by (cases ev) (auto simp: wait_inv_def wait_defs split: option.splits promise.splits if_splits)

lemma wait_inv_foldl: "wait_inv s \<Longrightarrow> wait_inv (foldl (deliver tempId dev) s evs)"
  by (induction evs arbitrary: s) (simp_all add: wait_inv_deliver)

lemma settled_closed:
  "wait_inv s \<Longrightarrow> outcome s \<noteq> Pending \<Longrightarrow> \<not> listening s \<and> timer s = None"
  by (auto simp: wait_inv_def split: if_splits)

lemma deliver_quiet: "quiet tempId ev \<Longrightarrow> deliver tempId dev s ev = s"
proof (cases ev)
  case (Snapshot snap)
  assume q: "quiet tempId ev"
  show ?thesis
  proof (cases snap)
    case None
    with Snapshot show ?thesis by (simp add: on_snapshot_def)
  next
    case (Some data)
    with Snapshot q show ?thesis
      by (auto simp: on_snapshot_def terminal_status_def)
  qed
qed simp_all

lemma foldl_deliver_quiet:
  "list_all (quiet tempId) evs \<Longrightarrow> foldl (deliver tempId dev) s evs = s"
  by (induction evs) (simp_all add: deliver_quiet)

lemma deliver_foreign: "foreign tempId ev \<Longrightarrow> deliver tempId dev s ev = s"
  by (auto simp: foreign_def on_snapshot_def split: event.splits option.splits)

lemma foldl_filter_foreign:
  "foldl (deliver tempId dev) s (filter (\<lambda>ev. \<not> foreign tempId ev) evs)
     = foldl (deliver tempId dev) s evs"
  by (induction evs arbitrary: s) (simp_all add: deliver_foreign)

lemma wait_timeout:
  assumes "list_all (quiet tempId) pre"
  shows "enrollment_wait tempId dev (pre @ TimeoutFired # post) =
     \<lparr>outcome = Rejected ''Enrollment timeout - ESP32 device did not respond within 3 minutes'',
      timer = None, listening = False\<rparr>"
proof -
  let ?s = "\<lparr>outcome = Rejected ''Enrollment timeout - ESP32 device did not respond within 3 minutes'',
      timer = None, listening = False\<rparr> :: wait_state"
  have "foldl (deliver tempId dev) wait_start pre = wait_start"
    using assms by (rule foldl_deliver_quiet)
  moreover have "deliver tempId dev wait_start TimeoutFired = ?s"
    by (simp add: wait_start_def on_timeout_def reject_def unsubscribe_def)
  moreover have "foldl (deliver tempId dev) ?s post = ?s"
    by (rule foldl_deliver_closed) simp_all
  ultimately show ?thesis by (simp add: enrollment_wait_def)
qed

subsection \<open>Evaluating the concrete gym\<close>

lemma gym1_tempId: "tempEnrollmentId gym1_env = ''temp_2000_abc123xyz''"
  by (simp add: tempEnrollmentId_def gym1_env_def int_toString_def nat_digits.simps digit_char_def)

lemma gym1_available: "available (checkDeviceStatus gym1_env ''gym1'' ''dev1'')"
  by (simp add: checkDeviceStatus_def gym1_env_def get_field_def)

lemma alice_valid: "validateMemberData alice = Inr ()"
  by (simp add: validateMemberData_def alice_def get_field_def js_trim_def js_whitespace_def)

lemma getErrorType_timeout:
  "getErrorType ''Enrollment timeout - ESP32 device did not respond within 3 minutes'' = ''timeout''"
  by (simp add: getErrorType_def toLowerCase_def lower_char_def)

lemma getErrorType_cancelled: "getErrorType ''Enrollment was cancelled'' = ''user_cancelled''"
  by (simp add: getErrorType_def toLowerCase_def lower_char_def)

subsection \<open>Correlation isolation\<close>

text \<open>
  C2. An update whose \<open>tempId\<close> is not the one \<^verbatim>\<open>waitForEnrollmentCompletion\<close> was started
  with leaves the whole state of the call as it is, so it neither resolves nor rejects
  the promise; the promise changes only on the timer, on a listener error or on an update
  with the call's own \<open>tempId\<close>; and the result of the call is the same with all the
  updates of other attempts removed from what the listener receives.
\<close>

theorem C2_correlation_isolation:
  "(get_field data ''tempId'' \<noteq> JStr tempId \<longrightarrow> deliver tempId dev s (Snapshot (Some data)) = s)
   \<and> (outcome (deliver tempId dev s ev) \<noteq> outcome s \<longrightarrow>
        ev = TimeoutFired \<or> (\<exists>err. ev = ListenerError err)
        \<or> (\<exists>upd. ev = Snapshot (Some upd) \<and> get_field upd ''tempId'' = JStr tempId))
   \<and> waitForEnrollmentCompletion gymId dev tempId (filter (\<lambda>ev. \<not> foreign tempId ev) events)
        = waitForEnrollmentCompletion gymId dev tempId events"
proof (intro conjI impI)
  assume "get_field data ''tempId'' \<noteq> JStr tempId"
  then show "deliver tempId dev s (Snapshot (Some data)) = s"
    by (simp add: on_snapshot_def)
next
  assume "outcome (deliver tempId dev s ev) \<noteq> outcome s"
  then show "ev = TimeoutFired \<or> (\<exists>err. ev = ListenerError err)
        \<or> (\<exists>upd. ev = Snapshot (Some upd) \<and> get_field upd ''tempId'' = JStr tempId)"
    by (cases ev) (auto simp: on_snapshot_def split: option.splits if_splits)
next
  show "waitForEnrollmentCompletion gymId dev tempId (filter (\<lambda>ev. \<not> foreign tempId ev) events)
        = waitForEnrollmentCompletion gymId dev tempId events"
    by (simp add: waitForEnrollmentCompletion_def enrollment_wait_def foldl_filter_foreign)
qed

theorem C2_correlation_isolation_witness:
  "get_field (device_update ''temp_B'' ''completed'' [(''fingerprintId'', JNum 9)]) ''tempId''
      \<noteq> JStr ''temp_A''
   \<and> deliver ''temp_A'' ''dev1'' wait_start
        (Snapshot (Some (device_update ''temp_B'' ''completed'' [(''fingerprintId'', JNum 9)])))
      = wait_start
   \<and> outcome (deliver ''temp_A'' ''dev1'' wait_start
        (Snapshot (Some (device_update ''temp_A'' ''cancelled'' [])))) \<noteq> outcome wait_start
   \<and> get_field (device_update ''temp_A'' ''cancelled'' []) ''tempId'' = JStr ''temp_A''
   \<and> waitForEnrollmentCompletion ''gym1'' ''dev1'' ''temp_A''
        [Snapshot (Some (device_update ''temp_B'' ''completed'' [(''fingerprintId'', JNum 9)])),
         TimeoutFired]
      = waitForEnrollmentCompletion ''gym1'' ''dev1'' ''temp_A'' [TimeoutFired]"
  using C2_correlation_isolation
    [of "device_update ''temp_B'' ''completed'' [(''fingerprintId'', JNum 9)]" "''temp_A''"
        "''dev1''" wait_start "Snapshot (Some (device_update ''temp_A'' ''cancelled'' []))"
        "''gym1''"
        "[Snapshot (Some (device_update ''temp_B'' ''completed'' [(''fingerprintId'', JNum 9)])),
          TimeoutFired]"]
  by (simp add: device_update_def get_field_def foreign_def wait_start_def wait_defs)

subsection \<open>Timeout\<close>

text \<open>
  C6. The timer is armed with 180000 milliseconds. When it fires after events none of
  which is an update with the attempt's \<open>tempId\<close> and a terminal status or a listener error,
  \<^verbatim>\<open>createMemberAndStartEnrollment\<close> rejects with the timeout error (of type
  \<open>timeout\<close>), the listener is detached, and the only write of the whole call is the
  pending command it issued at the start: nothing is written to the mailbox afterwards.
\<close>

theorem C6_timeout:
  assumes "validateMemberData memberData = Inr ()"
    and "available (checkDeviceStatus e gymId dev)"
    and "list_all (quiet (tempEnrollmentId e)) pre"
  shows "timer wait_start = Some 180000
    \<and> createMemberAndStartEnrollment e gymId memberData dev (pre @ TimeoutFired # post)
        = (Rejected (enhance gymId dev memberData
             ''Enrollment timeout - ESP32 device did not respond within 3 minutes''),
           [SetDoc (CommandPath gymId dev) (enrollmentCommand e memberData)])
    \<and> err_type (enhance gymId dev memberData
         ''Enrollment timeout - ESP32 device did not respond within 3 minutes'') = ''timeout''
    \<and> get_field (enrollmentCommand e memberData) ''status'' = JStr ''pending''
    \<and> enrollment_wait (tempEnrollmentId e) dev (pre @ TimeoutFired # post)
        = \<lparr>outcome = Rejected ''Enrollment timeout - ESP32 device did not respond within 3 minutes'',
           timer = None, listening = False\<rparr>"
proof -
  have w: "enrollment_wait (tempEnrollmentId e) dev (pre @ TimeoutFired # post)
        = \<lparr>outcome = Rejected ''Enrollment timeout - ESP32 device did not respond within 3 minutes'',
           timer = None, listening = False\<rparr>"
    using assms(3) by (rule wait_timeout)
  have "createMemberAndStartEnrollment e gymId memberData dev (pre @ TimeoutFired # post)
        = (Rejected (enhance gymId dev memberData
             ''Enrollment timeout - ESP32 device did not respond within 3 minutes''),
           [SetDoc (CommandPath gymId dev) (enrollmentCommand e memberData)])"
    using assms(1,2) w
    by (simp add: createMemberAndStartEnrollment_def waitForEnrollmentCompletion_def)
  moreover have "err_type (enhance gymId dev memberData
         ''Enrollment timeout - ESP32 device did not respond within 3 minutes'') = ''timeout''"
    by (simp add: enhance_def getErrorType_timeout)
  moreover have "get_field (enrollmentCommand e memberData) ''status'' = JStr ''pending''"
    by (simp add: enrollmentCommand_def get_field_def)
  moreover have "timer wait_start = Some 180000"
    by (simp add: wait_start_def)
  ultimately show ?thesis using w by simp
qed

theorem C6_timeout_witness:
  "validateMemberData alice = Inr ()
   \<and> available (checkDeviceStatus gym1_env ''gym1'' ''dev1'')
   \<and> list_all (quiet (tempEnrollmentId gym1_env))
        [Snapshot (Some (device_update ''temp_2000_abc123xyz'' ''in_progress'' []))]
   \<and> createMemberAndStartEnrollment gym1_env ''gym1'' alice ''dev1''
        [Snapshot (Some (device_update ''temp_2000_abc123xyz'' ''in_progress'' [])), TimeoutFired]
      = (Rejected
           \<lparr>err_message = ''Enrollment timeout - ESP32 device did not respond within 3 minutes'',
            err_type = ''timeout'', err_gymId = ''gym1'', err_deviceId = ''dev1'',
            err_memberName = JStr ''Alice''\<rparr>,
         [SetDoc (CommandPath ''gym1'' ''dev1'')
            [(''status'', JStr ''pending''), (''tempId'', JStr ''temp_2000_abc123xyz''),
             (''memberName'', JStr ''Alice''), (''timestamp'', JServerTimestamp),
             (''requestedBy'', JStr ''react_app'')]])"
proof -
  have q: "list_all (quiet (tempEnrollmentId gym1_env))
        [Snapshot (Some (device_update ''temp_2000_abc123xyz'' ''in_progress'' []))]"
    by (simp add: gym1_tempId device_update_def terminal_status_def get_field_def)
  from C6_timeout [OF alice_valid gym1_available q, of "[]"] alice_valid gym1_available q
  show ?thesis
    by (simp add: enhance_def enrollmentCommand_def gym1_tempId alice_def get_field_def)
qed

subsection \<open>The workflow around the wait\<close>

lemma wait_observed_success:
  assumes "listening (enrollment_wait tempId dev pre)" "completed_update tempId data"
  shows "enrollment_wait tempId dev (pre @ Snapshot (Some data) # post) =
     \<lparr>outcome = Resolved (resolved_with dev data), timer = None, listening = False\<rparr>"
proof -
  let ?s = "enrollment_wait tempId dev pre"
  let ?t = "\<lparr>outcome = Resolved (resolved_with dev data), timer = None, listening = False\<rparr> :: wait_state"
  have inv: "wait_inv ?s"
    unfolding enrollment_wait_def using wait_inv_start by (rule wait_inv_foldl)
  with assms(1) have "outcome ?s = Pending"
    by (auto simp: wait_inv_def split: if_splits)
  with assms have "deliver tempId dev ?s (Snapshot (Some data)) = ?t"
    by (simp add: on_snapshot_def completed_update_def resolve_def unsubscribe_def
        clearTimeout_def resolved_with_def)
  moreover have "foldl (deliver tempId dev) ?t post = ?t"
    by (rule foldl_deliver_closed) simp_all
  ultimately show ?thesis by (simp add: enrollment_wait_def)
qed

lemma deliver_resolved_new:
  assumes "outcome (deliver tempId dev s ev) = Resolved r" "outcome s \<noteq> Resolved r"
  shows "\<exists>data. ev = Snapshot (Some data) \<and> listening s \<and> completed_update tempId data
           \<and> r = resolved_with dev data"
  using assms
  by (cases ev)
     (auto simp: wait_defs completed_update_def resolved_with_def
           split: option.splits promise.splits if_splits)

lemma wait_resolved_observed:
  assumes "outcome (enrollment_wait tempId dev evs) = Resolved r"
  shows "\<exists>pre data post. evs = pre @ Snapshot (Some data) # post
           \<and> listening (enrollment_wait tempId dev pre) \<and> completed_update tempId data
           \<and> r = resolved_with dev data"
  using assms
proof (induction evs rule: rev_induct)
  case Nil
  then show ?case by (simp add: enrollment_wait_def wait_start_def)
next
  case (snoc ev evs)
  let ?s' = "enrollment_wait tempId dev evs"
  from snoc.prems have r: "outcome (deliver tempId dev ?s' ev) = Resolved r"
    by (simp add: enrollment_wait_def)
  show ?case
  proof (cases "outcome ?s' = Resolved r")
    case True
    with snoc.IH obtain pre data post where
      "evs = pre @ Snapshot (Some data) # post" and rest: "listening (enrollment_wait tempId dev pre)"
      "completed_update tempId data" "r = resolved_with dev data" by blast
    then have "evs @ [ev] = pre @ Snapshot (Some data) # (post @ [ev])" by simp
    with rest show ?thesis by blast
  next
    case False
    with r obtain data where "ev = Snapshot (Some data)" "listening ?s'"
      "completed_update tempId data" "r = resolved_with dev data"
      using deliver_resolved_new by blast
    then show ?thesis by blast
  qed
qed

lemma truthy_toString_nonempty: "truthy v \<Longrightarrow> js_toString v \<noteq> []"
  by (cases v) (simp_all add: int_toString_nonempty)

lemma create_checked:
  assumes "validateMemberData memberData = Inr ()" "available (checkDeviceStatus e gymId dev)"
  shows "createMemberAndStartEnrollment e gymId memberData dev events =
     (case outcome (enrollment_wait (tempEnrollmentId e) dev events) of
        Pending \<Rightarrow> (Pending, [SetDoc (CommandPath gymId dev) (enrollmentCommand e memberData)])
      | Rejected err \<Rightarrow>
          (Rejected (enhance gymId dev memberData err),
           [SetDoc (CommandPath gymId dev) (enrollmentCommand e memberData)])
      | Resolved result \<Rightarrow>
          if success result \<and> fingerprintId result \<noteq> []
          then (Resolved
                 \<lparr>success = success result,
                  fingerprintId = fingerprintId result,
                  memberName = memberName result,
                  message = JStr (''Member '' @ js_toString (get_field memberData ''Name'')
                    @ '' enrolled successfully with Fingerprint ID: '' @ fingerprintId result),
                  enrollmentTime = enrollmentTime result,
                  deviceId = deviceId result,
                  memberId = fingerprintId result,
                  gymMemberId = get_field
                    (finalMemberData e gymId memberData dev (fingerprintId result)) ''gymMemberId''\<rparr>,
                [SetDoc (CommandPath gymId dev) (enrollmentCommand e memberData),
                 SetDoc (MemberPath gymId (fingerprintId result))
                   (finalMemberData e gymId memberData dev (fingerprintId result))])
          else (Rejected (enhance gymId dev memberData
                  (js_toString (js_or (message result) (JStr ''Enrollment failed on the device.'')))),
                [SetDoc (CommandPath gymId dev) (enrollmentCommand e memberData)]))"
  using assms
  by (simp add: createMemberAndStartEnrollment_def waitForEnrollmentCompletion_def Let_def
      split: promise.splits)

lemma create_unchecked:
  assumes "validateMemberData memberData \<noteq> Inr () \<or> \<not> available (checkDeviceStatus e gymId dev)"
  shows "snd (createMemberAndStartEnrollment e gymId memberData dev events) = []"
    and "\<exists>err. fst (createMemberAndStartEnrollment e gymId memberData dev events) = Rejected err"
  using assms
  by (auto simp: createMemberAndStartEnrollment_def Let_def split: sum.splits)

lemma get_field_final:
  "get_field (finalMemberData e gymId memberData dev fid) ''fingerprintId'' = parseInt fid"
  "get_field (finalMemberData e gymId memberData dev fid) ''id'' = JStr fid"
  "get_field (finalMemberData e gymId memberData dev fid) ''gymMemberId'' =
     js_or (get_field memberData ''gymMemberId'') (JStr (generateGymMemberId e gymId))"
  by (simp_all add: finalMemberData_def js_assign_def get_field_def update_conv')

lemma parseInt_not_string: "parseInt s \<noteq> JStr x"
  by (simp add: parseInt_def Let_def)

lemma generated_not_integer: "generateGymMemberId e gymId \<noteq> int_toString n"
  by (simp add: generateGymMemberId_def int_toString_not_F split: option.splits)

lemma member_write_shape:
  assumes "w \<in> set (snd (createMemberAndStartEnrollment e gymId memberData dev events))"
    and "is_member_write w"
  shows "\<exists>fid. w = SetDoc (MemberPath gymId fid) (finalMemberData e gymId memberData dev fid)"
proof (cases "validateMemberData memberData = Inr () \<and> available (checkDeviceStatus e gymId dev)")
  case True
  with assms show ?thesis
    by (auto simp: create_checked split: promise.splits if_splits)
next
  case False
  then have "snd (createMemberAndStartEnrollment e gymId memberData dev events) = []"
    by (intro create_unchecked) auto
  with assms show ?thesis by simp
qed

subsection \<open>Evaluating the workflow in the concrete gym\<close>

lemmas eval_doc = device_update_def get_field_def alice_def

lemma gym1_command_eq: "enrollmentCommand gym1_env alice = gym1_command"
  by (simp add: enrollmentCommand_def gym1_command_def gym1_tempId alice_def get_field_def)

lemma gym1_generated: "generateGymMemberId gym1_env ''gym1'' = ''FN001''"
  by (simp add: generateGymMemberId_def gym1_env_def padStart_def int_toString_def
      nat_digits.simps digit_char_def eval_nat_numeral)

lemma int_toString_7: "int_toString 7 = ''7''"
  by (simp add: int_toString_def nat_digits.simps digit_char_def)

lemma listening_start: "listening (enrollment_wait tempId dev [])"
  by (simp add: enrollment_wait_def wait_start_def)

lemma completed_with_fields:
  "get_field (completed_with n) ''tempId'' = JStr ''temp_2000_abc123xyz''"
  "get_field (completed_with n) ''status'' = JStr ''completed''"
  "get_field (completed_with n) ''fingerprintId'' = JNum n"
  by (simp_all add: completed_with_def device_update_def get_field_def)

lemma parseInt_7: "parseInt ''7'' = JNum 7"
  using parseInt_int_toString [of 7] by (simp add: int_toString_7)

lemma alice_final7: "finalMemberData gym1_env ''gym1'' alice ''dev1'' ''7'' = alice_member7"
  by (simp add: finalMemberData_def js_assign_def alice_def get_field_def js_or_def gym1_generated
      parseInt_7 alice_member7_def)

lemma gym1_wait_completed:
  "n \<noteq> 0 \<Longrightarrow> enrollment_wait ''temp_2000_abc123xyz'' ''dev1'' (Snapshot (Some (completed_with n)) # post)
     = \<lparr>outcome = Resolved (resolved_with ''dev1'' (completed_with n)), timer = None, listening = False\<rparr>"
  using wait_observed_success [of "''temp_2000_abc123xyz''" "''dev1''" "[]" "completed_with n" post]
  by (simp add: listening_start completed_update_def completed_with_fields)

lemma gym1_wait_zero:
  "enrollment_wait ''temp_2000_abc123xyz'' ''dev1'' [Snapshot (Some (completed_with 0))] = wait_start"
  by (simp add: enrollment_wait_def on_snapshot_def completed_with_fields)

lemma gym1_enroll7:
  assumes "validateMemberData memberData = Inr ()"
  shows "snd (createMemberAndStartEnrollment gym1_env ''gym1'' memberData ''dev1''
            [Snapshot (Some (completed_with 7))])
     = [SetDoc (CommandPath ''gym1'' ''dev1'') (enrollmentCommand gym1_env memberData),
        SetDoc (MemberPath ''gym1'' ''7'') (finalMemberData gym1_env ''gym1'' memberData ''dev1'' ''7'')]"
  using gym1_wait_completed [of 7 "[]"]
  by (simp add: create_checked [OF assms gym1_available] gym1_tempId resolved_with_def
      completed_with_fields int_toString_7)

lemma gym1_waiting_mailbox: "commands gym1_waiting_env (''gym1'', ''dev1'') = Some gym1_command"
  by (simp add: gym1_waiting_env_def gym1_command_eq)

lemma gym1_cancelled_eq:
  "js_assign gym1_command
     [(''status'', JStr ''cancelled''), (''timestamp'', JServerTimestamp),
      (''cancelledBy'', JStr ''react_app'')] = gym1_cancelled"
  by (simp add: js_assign_def gym1_command_def gym1_cancelled_def)

lemma alice_id7_valid: "validateMemberData alice_id7 = Inr ()"
  by (simp add: validateMemberData_def alice_id7_def get_field_def js_trim_def js_whitespace_def)

lemma alice_id7_final: "finalMemberData gym1_env ''gym1'' alice_id7 ''dev1'' ''7'' = alice_id7_member"
  by (simp add: finalMemberData_def js_assign_def alice_id7_def get_field_def js_or_def
      parseInt_7 alice_id7_member_def)

lemma wait_observed_cancel:
  assumes "listening (enrollment_wait tempId dev pre)"
    and "get_field data ''tempId'' = JStr tempId"
    and "get_field data ''status'' = JStr ''cancelled''"
  shows "enrollment_wait tempId dev (pre @ Snapshot (Some data) # post) =
     \<lparr>outcome = Rejected ''Enrollment was cancelled'', timer = None, listening = False\<rparr>"
proof -
  let ?s = "enrollment_wait tempId dev pre"
  let ?t = "\<lparr>outcome = Rejected ''Enrollment was cancelled'', timer = None, listening = False\<rparr> :: wait_state"
  have inv: "wait_inv ?s"
    unfolding enrollment_wait_def using wait_inv_start by (rule wait_inv_foldl)
  with assms(1) have "outcome ?s = Pending"
    by (auto simp: wait_inv_def split: if_splits)
  with assms have "deliver tempId dev ?s (Snapshot (Some data)) = ?t"
    by (simp add: on_snapshot_def reject_def unsubscribe_def clearTimeout_def)
  moreover have "foldl (deliver tempId dev) ?t post = ?t"
    by (rule foldl_deliver_closed) simp_all
  ultimately show ?thesis by (simp add: enrollment_wait_def)
qed

subsection \<open>The gates in front of the command\<close>


lemma unavailable_no_effects:
  "validateMemberData memberData = Inr () \<Longrightarrow> \<not> available (checkDeviceStatus e gymId dev) \<Longrightarrow>
     createMemberAndStartEnrollment e gymId memberData dev events
       = (Rejected (enhance gymId dev memberData
            (''Device '' @ dev @ '' is not available: '' @ reason (checkDeviceStatus e gymId dev))), [])"
  by (simp add: createMemberAndStartEnrollment_def Let_def)

lemma device_missing_unavailable:
  "devices e (gymId, dev) = None \<Longrightarrow> \<not> available (checkDeviceStatus e gymId dev)"
  by (simp add: checkDeviceStatus_def split: option.splits)

lemma device_stale_unavailable:
  "devices e (gymId, dev) = Some deviceData \<Longrightarrow> get_field deviceData ''last_seen'' = JTimestamp t
     \<Longrightarrow> now e - t > 120000 \<Longrightarrow> \<not> available (checkDeviceStatus e gymId dev)"
  by (simp add: checkDeviceStatus_def split: option.splits)

lemma device_not_online_unavailable:
  "devices e (gymId, dev) = Some deviceData \<Longrightarrow> get_field deviceData ''status'' \<noteq> JStr ''online''
     \<Longrightarrow> \<not> available (checkDeviceStatus e gymId dev)"
  by (simp add: checkDeviceStatus_def Let_def split: option.splits sum.splits)

subsection \<open>Finalization\<close>

text \<open>
  C1, as amended. A write to the members collection is among the writes of
  \<^verbatim>\<open>createMemberAndStartEnrollment\<close> if and only if validation and the availability check
  passed and the listener, while attached, received an update with the attempt's \<open>tempId\<close>,
  status \<open>completed\<close> and a truthy \<open>fingerprintId\<close> (for an integer: other than 0); and
  that is the case exactly when the call resolves. So a validation failure, an unavailable
  device, a \<open>failed\<close> or \<open>cancelled\<close> update, the timeout and a listener error, after which the
  call is rejected, send no write to the members collection.
\<close>

theorem C1_member_persisted_iff:
  "(list_ex is_member_write (snd (createMemberAndStartEnrollment e gymId memberData dev events))
      \<longleftrightarrow> validateMemberData memberData = Inr () \<and> available (checkDeviceStatus e gymId dev)
         \<and> (\<exists>pre data post. events = pre @ Snapshot (Some data) # post
               \<and> listening (enrollment_wait (tempEnrollmentId e) dev pre)
               \<and> get_field data ''tempId'' = JStr (tempEnrollmentId e)
               \<and> get_field data ''status'' = JStr ''completed''
               \<and> truthy (get_field data ''fingerprintId'')))
   \<and> (list_ex is_member_write (snd (createMemberAndStartEnrollment e gymId memberData dev events))
      \<longleftrightarrow> (\<exists>r. fst (createMemberAndStartEnrollment e gymId memberData dev events) = Resolved r))"
proof (cases "validateMemberData memberData = Inr () \<and> available (checkDeviceStatus e gymId dev)")
  case False
  then have "snd (createMemberAndStartEnrollment e gymId memberData dev events) = []"
    and "\<exists>err. fst (createMemberAndStartEnrollment e gymId memberData dev events) = Rejected err"
    by (auto intro: create_unchecked)
  with False show ?thesis by auto
next
  case True
  then have v: "validateMemberData memberData = Inr ()"
    and a: "available (checkDeviceStatus e gymId dev)" by simp_all
  let ?tid = "tempEnrollmentId e"
  let ?obs = "\<exists>pre data post. events = pre @ Snapshot (Some data) # post
               \<and> listening (enrollment_wait ?tid dev pre)
               \<and> get_field data ''tempId'' = JStr ?tid
               \<and> get_field data ''status'' = JStr ''completed''
               \<and> truthy (get_field data ''fingerprintId'')"
  let ?res = "createMemberAndStartEnrollment e gymId memberData dev events"
  show ?thesis
  proof (cases ?obs)
    case True
    then obtain pre data post where ev: "events = pre @ Snapshot (Some data) # post"
      and l: "listening (enrollment_wait ?tid dev pre)"
      and c: "completed_update ?tid data"
      by (auto simp: completed_update_def)
    from c have t: "fingerprintId (resolved_with dev data) \<noteq> []" "success (resolved_with dev data)"
      by (simp_all add: resolved_with_def completed_update_def truthy_toString_nonempty)
    have "list_ex is_member_write (snd ?res) \<and> (\<exists>r. fst ?res = Resolved r)"
      using wait_observed_success [OF l c, of post] t
      by (simp add: create_checked [OF v a] ev)
    with True v a show ?thesis by blast
  next
    case False
    have nr: "outcome (enrollment_wait ?tid dev events) \<noteq> Resolved r" for r
    proof
      assume "outcome (enrollment_wait ?tid dev events) = Resolved r"
      from wait_resolved_observed [OF this] False show False
        by (auto simp: completed_update_def)
    qed
    have "\<not> list_ex is_member_write (snd ?res) \<and> \<not> (\<exists>r. fst ?res = Resolved r)"
      using nr by (auto simp: create_checked [OF v a] split: promise.splits)
    with False show ?thesis by blast
  qed
qed

text \<open>
  An instance of C1: the update with \<open>fingerprintId\<close> 7 makes the call write a Member
  document; the timer alone does not.
\<close>

theorem C1_member_persisted_iff_witness:
  "validateMemberData alice = Inr ()
   \<and> available (checkDeviceStatus gym1_env ''gym1'' ''dev1'')
   \<and> listening (enrollment_wait (tempEnrollmentId gym1_env) ''dev1'' [])
   \<and> get_field (completed_with 7) ''tempId'' = JStr (tempEnrollmentId gym1_env)
   \<and> get_field (completed_with 7) ''status'' = JStr ''completed''
   \<and> truthy (get_field (completed_with 7) ''fingerprintId'')
   \<and> list_ex is_member_write
        (snd (createMemberAndStartEnrollment gym1_env ''gym1'' alice ''dev1''
           [Snapshot (Some (completed_with 7))]))
   \<and> \<not> list_ex is_member_write
        (snd (createMemberAndStartEnrollment gym1_env ''gym1'' alice ''dev1'' [TimeoutFired]))"
proof -
  have obs: "\<exists>pre data post. [Snapshot (Some (completed_with 7))] = pre @ Snapshot (Some data) # post
               \<and> listening (enrollment_wait (tempEnrollmentId gym1_env) ''dev1'' pre)
               \<and> get_field data ''tempId'' = JStr (tempEnrollmentId gym1_env)
               \<and> get_field data ''status'' = JStr ''completed''
               \<and> truthy (get_field data ''fingerprintId'')"
    by (rule exI [of _ "[]"], rule exI [of _ "completed_with 7"], rule exI [of _ "[]"])
       (simp add: listening_start completed_with_fields gym1_tempId)
  have t: "fst (createMemberAndStartEnrollment gym1_env ''gym1'' alice ''dev1'' [TimeoutFired])
      = Rejected (enhance ''gym1'' ''dev1'' alice
          ''Enrollment timeout - ESP32 device did not respond within 3 minutes'')"
    by (simp add: create_checked [OF alice_valid gym1_available] enrollment_wait_def wait_start_def
        on_timeout_def reject_def unsubscribe_def)
  from C1_member_persisted_iff [of gym1_env "''gym1''" alice "''dev1''" "[Snapshot (Some (completed_with 7))]"]
    obs alice_valid gym1_available
  have w1: "list_ex is_member_write
        (snd (createMemberAndStartEnrollment gym1_env ''gym1'' alice ''dev1''
           [Snapshot (Some (completed_with 7))]))" by blast
  from C1_member_persisted_iff [of gym1_env "''gym1''" alice "''dev1''" "[TimeoutFired]", THEN conjunct2] t
  have w2: "\<not> list_ex is_member_write
        (snd (createMemberAndStartEnrollment gym1_env ''gym1'' alice ''dev1'' [TimeoutFired]))"
    by simp
  show ?thesis
    using w1 w2 alice_valid gym1_available
    by (simp add: listening_start completed_with_fields gym1_tempId)
qed

text \<open>
  C1 as stated, with a non-null \<open>fingerprintId\<close>, fails at \<open>fingerprintId\<close> 0: the listener
  receives the update with the attempt's \<open>tempId\<close> and status \<open>completed\<close>, and the call
  writes no Member document.
\<close>

theorem C1_zero_id_counterexample:
  "validateMemberData alice = Inr ()
   \<and> available (checkDeviceStatus gym1_env ''gym1'' ''dev1'')
   \<and> listening (enrollment_wait (tempEnrollmentId gym1_env) ''dev1'' [])
   \<and> get_field (completed_with 0) ''tempId'' = JStr (tempEnrollmentId gym1_env)
   \<and> get_field (completed_with 0) ''status'' = JStr ''completed''
   \<and> get_field (completed_with 0) ''fingerprintId'' = JNum 0
   \<and> JNum 0 \<noteq> JNull \<and> JNum 0 \<noteq> JUndefined
   \<and> snd (createMemberAndStartEnrollment gym1_env ''gym1'' alice ''dev1''
           [Snapshot (Some (completed_with 0)), TimeoutFired])
      = [SetDoc (CommandPath ''gym1'' ''dev1'') gym1_command]
   \<and> \<not> list_ex is_member_write
        (snd (createMemberAndStartEnrollment gym1_env ''gym1'' alice ''dev1''
           [Snapshot (Some (completed_with 0)), TimeoutFired]))"
proof -
  have w: "enrollment_wait ''temp_2000_abc123xyz'' ''dev1''
       [Snapshot (Some (completed_with 0)), TimeoutFired]
       = \<lparr>outcome = Rejected ''Enrollment timeout - ESP32 device did not respond within 3 minutes'',
           timer = None, listening = False\<rparr>"
    by (simp add: enrollment_wait_def wait_start_def on_snapshot_def on_timeout_def reject_def
        unsubscribe_def completed_with_fields)
  have s: "snd (createMemberAndStartEnrollment gym1_env ''gym1'' alice ''dev1''
           [Snapshot (Some (completed_with 0)), TimeoutFired])
      = [SetDoc (CommandPath ''gym1'' ''dev1'') gym1_command]"
    by (simp add: create_checked [OF alice_valid gym1_available] gym1_tempId w gym1_command_eq)
  show ?thesis
    using alice_valid gym1_available
    by (simp add: s listening_start completed_with_fields gym1_tempId)
qed

text \<open>
  C5, as amended. When the listener, while attached, receives an update with the
  attempt's \<open>tempId\<close>, status \<open>completed\<close> and a \<open>fingerprintId\<close> \<open>n\<close> that is a safe integer
  (at most \<open>2\<^sup>5\<^sup>3 - 1\<close> in magnitude, where a number prints all its digits) other than 0,
  \<^verbatim>\<open>createMemberAndStartEnrollment\<close> writes the Member document under the key
  \<open>n.toString()\<close>, with the fields \<open>fingerprintId = n\<close> (a number) and \<open>id = n.toString()\<close>, and
  resolves with \<open>success\<close> and \<open>memberId = fingerprintId = n.toString()\<close>; the timer is cleared
  and the listener detached.
\<close>

theorem C5_finalize:
  assumes "validateMemberData memberData = Inr ()"
    and "available (checkDeviceStatus e gymId dev)"
    and "listening (enrollment_wait (tempEnrollmentId e) dev pre)"
    and "get_field data ''tempId'' = JStr (tempEnrollmentId e)"
    and "get_field data ''status'' = JStr ''completed''"
    and "get_field data ''fingerprintId'' = JNum n"
    and "n \<noteq> 0"
    and "safe_integer n"
  shows "\<exists>r. createMemberAndStartEnrollment e gymId memberData dev (pre @ Snapshot (Some data) # post)
          = (Resolved r,
             [SetDoc (CommandPath gymId dev) (enrollmentCommand e memberData),
              SetDoc (MemberPath gymId (int_toString n))
                (finalMemberData e gymId memberData dev (int_toString n))])
        \<and> success r \<and> fingerprintId r = int_toString n \<and> memberId r = int_toString n
        \<and> get_field (finalMemberData e gymId memberData dev (int_toString n)) ''fingerprintId'' = JNum n
        \<and> get_field (finalMemberData e gymId memberData dev (int_toString n)) ''id''
            = JStr (int_toString n)
        \<and> enrollment_wait (tempEnrollmentId e) dev (pre @ Snapshot (Some data) # post)
            = \<lparr>outcome = Resolved (resolved_with dev data), timer = None, listening = False\<rparr>"
proof -
  have c: "completed_update (tempEnrollmentId e) data"
    using assms(4-7) by (simp add: completed_update_def)
  note w = wait_observed_success [OF assms(3) c, of post]
  have f: "fingerprintId (resolved_with dev data) = int_toString n" "success (resolved_with dev data)"
    using assms(6) by (simp_all add: resolved_with_def)
  show ?thesis
    using w f
    by (simp add: create_checked [OF assms(1,2)] int_toString_nonempty get_field_final
        parseInt_int_toString)
qed

text \<open>
  An instance of C5: Alice enrolled with \<open>fingerprintId\<close> 7.
\<close>

theorem C5_finalize_witness:
  "validateMemberData alice = Inr ()
   \<and> available (checkDeviceStatus gym1_env ''gym1'' ''dev1'')
   \<and> listening (enrollment_wait (tempEnrollmentId gym1_env) ''dev1'' [])
   \<and> get_field (completed_with 7) ''tempId'' = JStr (tempEnrollmentId gym1_env)
   \<and> get_field (completed_with 7) ''status'' = JStr ''completed''
   \<and> get_field (completed_with 7) ''fingerprintId'' = JNum 7
   \<and> (7 :: int) \<noteq> 0
   \<and> safe_integer 7
   \<and> snd (createMemberAndStartEnrollment gym1_env ''gym1'' alice ''dev1''
           [Snapshot (Some (completed_with 7))])
      = [SetDoc (CommandPath ''gym1'' ''dev1'') gym1_command,
         SetDoc (MemberPath ''gym1'' ''7'') alice_member7]
   \<and> get_field alice_member7 ''fingerprintId'' = JNum 7"
proof -
  have h: "listening (enrollment_wait (tempEnrollmentId gym1_env) ''dev1'' [])"
    "get_field (completed_with 7) ''tempId'' = JStr (tempEnrollmentId gym1_env)"
    "get_field (completed_with 7) ''status'' = JStr ''completed''"
    "get_field (completed_with 7) ''fingerprintId'' = JNum 7"
    "(7 :: int) \<noteq> 0"
    "safe_integer 7"
    by (simp_all add: listening_start completed_with_fields gym1_tempId safe_integer_def)
  from C5_finalize [where post = "[]", OF alice_valid gym1_available h]
  have "snd (createMemberAndStartEnrollment gym1_env ''gym1'' alice ''dev1''
           [Snapshot (Some (completed_with 7))])
      = [SetDoc (CommandPath ''gym1'' ''dev1'') gym1_command,
         SetDoc (MemberPath ''gym1'' ''7'') alice_member7]"
    and "get_field alice_member7 ''fingerprintId'' = JNum 7"
    by (auto simp: int_toString_7 gym1_command_eq alice_final7)
  with h alice_valid gym1_available show ?thesis by simp
qed

text \<open>
  C5 as stated, for any \<open>fingerprintId\<close> that is present, fails at \<open>fingerprintId\<close> 0: the
  field is present in the update, the call stays pending and has written the command only.
\<close>

theorem C5_zero_id_counterexample:
  "get_field (completed_with 0) ''tempId'' = JStr (tempEnrollmentId gym1_env)
   \<and> get_field (completed_with 0) ''status'' = JStr ''completed''
   \<and> map_of (completed_with 0) ''fingerprintId'' = Some (JNum 0)
   \<and> createMemberAndStartEnrollment gym1_env ''gym1'' alice ''dev1''
        [Snapshot (Some (completed_with 0))]
      = (Pending, [SetDoc (CommandPath ''gym1'' ''dev1'') gym1_command])"
proof -
  have "createMemberAndStartEnrollment gym1_env ''gym1'' alice ''dev1''
        [Snapshot (Some (completed_with 0))]
      = (Pending, [SetDoc (CommandPath ''gym1'' ''dev1'') gym1_command])"
    by (simp add: create_checked [OF alice_valid gym1_available] gym1_tempId gym1_wait_zero
        wait_start_def gym1_command_eq)
  moreover have "map_of (completed_with 0) ''fingerprintId'' = Some (JNum 0)"
    by (simp add: completed_with_def device_update_def)
  ultimately show ?thesis by (simp add: completed_with_fields gym1_tempId)
qed

text \<open>
  C9, as amended. When the caller supplies no \<open>gymMemberId\<close> (none or a falsy one), the
  Member document written under the key of an integer \<open>fingerprintId\<close> \<open>n\<close> carries the
  generated \<open>gymMemberId\<close>, which differs from \<open>n.toString()\<close> (it starts with \<open>FN\<close>), from
  the \<open>id\<close> field and from the \<open>fingerprintId\<close> field of the document.
\<close>

theorem C9_generated_id_differs:
  assumes "\<not> truthy (get_field memberData ''gymMemberId'')"
    and "SetDoc (MemberPath g (int_toString n)) member
           \<in> set (snd (createMemberAndStartEnrollment e gymId memberData dev events))"
  shows "get_field member ''gymMemberId'' = JStr (generateGymMemberId e gymId)
    \<and> generateGymMemberId e gymId \<noteq> int_toString n
    \<and> get_field member ''gymMemberId'' \<noteq> get_field member ''id''
    \<and> get_field member ''gymMemberId'' \<noteq> get_field member ''fingerprintId''
    \<and> get_field member ''id'' = JStr (int_toString n)
    \<and> get_field member ''fingerprintId'' = JNum n"
proof -
  from member_write_shape [OF assms(2)]
  have m: "member = finalMemberData e gymId memberData dev (int_toString n)" by auto
  have g: "get_field member ''gymMemberId'' = JStr (generateGymMemberId e gymId)"
    using assms(1) by (simp add: m get_field_final js_or_def)
  show ?thesis
    using g generated_not_integer [of e gymId n]
    by (simp add: m get_field_final parseInt_int_toString)
qed

text \<open>
  An instance of C9: the first member of the gym gets \<open>FN001\<close>.
\<close>

theorem C9_generated_id_differs_witness:
  "\<not> truthy (get_field alice ''gymMemberId'')
   \<and> SetDoc (MemberPath ''gym1'' (int_toString 7)) alice_member7
        \<in> set (snd (createMemberAndStartEnrollment gym1_env ''gym1'' alice ''dev1''
                    [Snapshot (Some (completed_with 7))]))
   \<and> get_field alice_member7 ''gymMemberId'' = JStr ''FN001''
   \<and> get_field alice_member7 ''id'' = JStr ''7''
   \<and> get_field alice_member7 ''fingerprintId'' = JNum 7
   \<and> generateGymMemberId gym1_env ''gym1'' \<noteq> int_toString 7"
proof -
  have a: "\<not> truthy (get_field alice ''gymMemberId'')"
    by (simp add: alice_def get_field_def)
  have m: "SetDoc (MemberPath ''gym1'' (int_toString 7)) alice_member7
        \<in> set (snd (createMemberAndStartEnrollment gym1_env ''gym1'' alice ''dev1''
                    [Snapshot (Some (completed_with 7))]))"
    by (simp add: gym1_enroll7 [OF alice_valid] int_toString_7 alice_final7)
  from C9_generated_id_differs [OF a m] a m show ?thesis
    by (simp add: gym1_generated int_toString_7)
qed

text \<open>
  C9 as stated, also for an identifier that the caller supplies, fails: the supplied
  \<open>gymMemberId\<close> \<open>7\<close> is stored as it is in the Member document of \<open>fingerprintId\<close> 7.
\<close>

theorem C9_supplied_id_counterexample:
  "get_field alice_id7 ''gymMemberId'' = JStr ''7''
   \<and> get_field (completed_with 7) ''fingerprintId'' = JNum 7
   \<and> snd (createMemberAndStartEnrollment gym1_env ''gym1'' alice_id7 ''dev1''
           [Snapshot (Some (completed_with 7))])
      = [SetDoc (CommandPath ''gym1'' ''dev1'') gym1_command,
         SetDoc (MemberPath ''gym1'' ''7'') alice_id7_member]
   \<and> get_field alice_id7_member ''gymMemberId'' = JStr ''7''
   \<and> get_field alice_id7_member ''id'' = JStr ''7''
   \<and> get_field alice_id7_member ''fingerprintId'' = JNum 7
   \<and> js_toString (get_field alice_id7_member ''fingerprintId'') = ''7''"
proof -
  have c: "enrollmentCommand gym1_env alice_id7 = gym1_command"
    by (simp add: enrollmentCommand_def gym1_command_def gym1_tempId alice_id7_def get_field_def)
  have "snd (createMemberAndStartEnrollment gym1_env ''gym1'' alice_id7 ''dev1''
           [Snapshot (Some (completed_with 7))])
      = [SetDoc (CommandPath ''gym1'' ''dev1'') gym1_command,
         SetDoc (MemberPath ''gym1'' ''7'') alice_id7_member]"
    by (simp add: gym1_enroll7 [OF alice_id7_valid] c alice_id7_final)
  moreover have "get_field alice_id7 ''gymMemberId'' = JStr ''7''"
    by (simp add: alice_id7_def get_field_def)
  moreover have "get_field alice_id7_member ''gymMemberId'' = JStr ''7''"
    "get_field alice_id7_member ''id'' = JStr ''7''"
    "get_field alice_id7_member ''fingerprintId'' = JNum 7"
    by (simp_all add: alice_id7_member_def get_field_def)
  ultimately show ?thesis
    by (simp add: completed_with_fields int_toString_7)
qed

subsection \<open>Cancellation\<close>

text \<open>
  C8. On an existing mailbox document, \<^verbatim>\<open>cancelEnrollment\<close> sends one \<^verbatim>\<open>updateDoc\<close>, after
  which the document has status \<open>cancelled\<close> and the \<open>tempId\<close> it had. When the listener of
  the attempt with that \<open>tempId\<close>, while attached, receives the document,
  \<^verbatim>\<open>createMemberAndStartEnrollment\<close> rejects with the error \<open>Enrollment was cancelled\<close> (of
  type \<open>user_cancelled\<close>), the timer is cleared and the listener detached.
\<close>

theorem C8_cancel:
  fixes mailbox :: doc
  defines "cancelled \<equiv> js_assign mailbox
     [(''status'', JStr ''cancelled''), (''timestamp'', JServerTimestamp),
      (''cancelledBy'', JStr ''react_app'')]"
  assumes "commands e (gymId, dev) = Some mailbox"
    and "get_field mailbox ''tempId'' = JStr (tempEnrollmentId e0)"
    and "validateMemberData memberData = Inr ()"
    and "available (checkDeviceStatus e0 gymId dev)"
    and "listening (enrollment_wait (tempEnrollmentId e0) dev pre)"
  shows "(\<exists>w. cancelEnrollment e gymId dev = (Inr (), [w])
            \<and> commands (apply_write e w) (gymId, dev) = Some cancelled)
    \<and> get_field cancelled ''status'' = JStr ''cancelled''
    \<and> get_field cancelled ''tempId'' = get_field mailbox ''tempId''
    \<and> createMemberAndStartEnrollment e0 gymId memberData dev (pre @ Snapshot (Some cancelled) # post)
        = (Rejected (enhance gymId dev memberData ''Enrollment was cancelled''),
           [SetDoc (CommandPath gymId dev) (enrollmentCommand e0 memberData)])
    \<and> err_type (enhance gymId dev memberData ''Enrollment was cancelled'') = ''user_cancelled''
    \<and> enrollment_wait (tempEnrollmentId e0) dev (pre @ Snapshot (Some cancelled) # post)
        = \<lparr>outcome = Rejected ''Enrollment was cancelled'', timer = None, listening = False\<rparr>"
proof -
  have s: "get_field cancelled ''status'' = JStr ''cancelled''"
    and t: "get_field cancelled ''tempId'' = get_field mailbox ''tempId''"
    by (simp_all add: cancelled_def js_assign_def get_field_def update_conv')
  have c: "\<exists>w. cancelEnrollment e gymId dev = (Inr (), [w])
            \<and> commands (apply_write e w) (gymId, dev) = Some cancelled"
    using assms(2) by (simp add: cancelEnrollment_def cancelled_def)
  from t assms(3) have t': "get_field cancelled ''tempId'' = JStr (tempEnrollmentId e0)" by simp
  note w = wait_observed_cancel [OF assms(6) t' s, of post]
  have "createMemberAndStartEnrollment e0 gymId memberData dev (pre @ Snapshot (Some cancelled) # post)
        = (Rejected (enhance gymId dev memberData ''Enrollment was cancelled''),
           [SetDoc (CommandPath gymId dev) (enrollmentCommand e0 memberData)])"
    using w by (simp add: create_checked [OF assms(4,5)])
  moreover have "err_type (enhance gymId dev memberData ''Enrollment was cancelled'') = ''user_cancelled''"
    by (simp add: enhance_def getErrorType_cancelled)
  ultimately show ?thesis using s t c w by simp
qed

text \<open>
  An instance of C8: Alice's attempt is cancelled while its command is pending.
\<close>

theorem C8_cancel_witness:
  "commands gym1_waiting_env (''gym1'', ''dev1'') = Some gym1_command
   \<and> get_field gym1_command ''tempId'' = JStr (tempEnrollmentId gym1_env)
   \<and> validateMemberData alice = Inr ()
   \<and> available (checkDeviceStatus gym1_env ''gym1'' ''dev1'')
   \<and> listening (enrollment_wait (tempEnrollmentId gym1_env) ''dev1'' [])
   \<and> get_field gym1_cancelled ''status'' = JStr ''cancelled''
   \<and> get_field gym1_cancelled ''tempId'' = JStr ''temp_2000_abc123xyz''
   \<and> createMemberAndStartEnrollment gym1_env ''gym1'' alice ''dev1'' [Snapshot (Some gym1_cancelled)]
      = (Rejected
           \<lparr>err_message = ''Enrollment was cancelled'', err_type = ''user_cancelled'',
            err_gymId = ''gym1'', err_deviceId = ''dev1'', err_memberName = JStr ''Alice''\<rparr>,
         [SetDoc (CommandPath ''gym1'' ''dev1'') gym1_command])"
proof -
  have h: "get_field gym1_command ''tempId'' = JStr (tempEnrollmentId gym1_env)"
    "listening (enrollment_wait (tempEnrollmentId gym1_env) ''dev1'' [])"
    by (simp_all add: gym1_command_def get_field_def gym1_tempId listening_start)
  have e: "enhance ''gym1'' ''dev1'' alice ''Enrollment was cancelled''
      = \<lparr>err_message = ''Enrollment was cancelled'', err_type = ''user_cancelled'',
         err_gymId = ''gym1'', err_deviceId = ''dev1'', err_memberName = JStr ''Alice''\<rparr>"
    by (simp add: enhance_def getErrorType_cancelled alice_def get_field_def)
  from C8_cancel [where post = "[]", OF gym1_waiting_mailbox h(1) alice_valid gym1_available h(2)]
  have "get_field gym1_cancelled ''status'' = JStr ''cancelled''"
    and "get_field gym1_cancelled ''tempId'' = get_field gym1_command ''tempId''"
    and "createMemberAndStartEnrollment gym1_env ''gym1'' alice ''dev1'' [Snapshot (Some gym1_cancelled)]
      = (Rejected (enhance ''gym1'' ''dev1'' alice ''Enrollment was cancelled''),
         [SetDoc (CommandPath ''gym1'' ''dev1'') gym1_command])"
    by (simp_all add: gym1_cancelled_eq gym1_command_eq)
  with h e gym1_waiting_mailbox alice_valid gym1_available show ?thesis
    by (simp add: gym1_tempId)
qed

subsection \<open>Availability\<close>

text \<open>
  C10. A device whose presence document exists with status \<open>online\<close> and without a
  \<open>last_seen\<close> field is available according to \<^verbatim>\<open>checkDeviceStatus\<close>, and for valid member
  data \<^verbatim>\<open>createMemberAndStartEnrollment\<close> goes on to write the enrollment command into its
  mailbox.
\<close>

theorem C10_no_heartbeat_available:
  assumes "device_read_error e = None"
    and "devices e (gymId, dev) = Some deviceData"
    and "get_field deviceData ''status'' = JStr ''online''"
    and "map_of deviceData ''last_seen'' = None"
  shows "available (checkDeviceStatus e gymId dev)
    \<and> reason (checkDeviceStatus e gymId dev) = ''Device is online and ready''
    \<and> (validateMemberData memberData = Inr () \<longrightarrow>
         (\<exists>rest. snd (createMemberAndStartEnrollment e gymId memberData dev events)
            = SetDoc (CommandPath gymId dev) (enrollmentCommand e memberData) # rest))"
proof -
  have l: "get_field deviceData ''last_seen'' = JUndefined"
    using assms(4) by (simp add: get_field_def)
  have a: "available (checkDeviceStatus e gymId dev)"
    and r: "reason (checkDeviceStatus e gymId dev) = ''Device is online and ready''"
    using assms(1-3) l by (simp_all add: checkDeviceStatus_def)
  have "\<exists>rest. snd (createMemberAndStartEnrollment e gymId memberData dev events)
            = SetDoc (CommandPath gymId dev) (enrollmentCommand e memberData) # rest"
    if v: "validateMemberData memberData = Inr ()"
    by (simp add: create_checked [OF v a] split: promise.splits)
  with a r show ?thesis by blast
qed

text \<open>
  An instance of C10: the scanner of the gym without any heartbeat.
\<close>

theorem C10_no_heartbeat_available_witness:
  "device_read_error gym1_silent_env = None
   \<and> devices gym1_silent_env (''gym1'', ''dev1'') = Some [(''status'', JStr ''online'')]
   \<and> get_field [(''status'', JStr ''online'')] ''status'' = JStr ''online''
   \<and> map_of [(''status'', JStr ''online'')] ''last_seen'' = None
   \<and> validateMemberData alice = Inr ()
   \<and> available (checkDeviceStatus gym1_silent_env ''gym1'' ''dev1'')
   \<and> hd (snd (createMemberAndStartEnrollment gym1_silent_env ''gym1'' alice ''dev1'' [TimeoutFired]))
      = SetDoc (CommandPath ''gym1'' ''dev1'') (enrollmentCommand gym1_silent_env alice)"
proof -
  have h: "device_read_error gym1_silent_env = None"
    "devices gym1_silent_env (''gym1'', ''dev1'') = Some [(''status'', JStr ''online'')]"
    "get_field [(''status'', JStr ''online'')] ''status'' = JStr ''online''"
    "map_of [(''status'', JStr ''online'')] ''last_seen'' = None"
    by (simp_all add: gym1_silent_env_def gym1_env_def get_field_def)
  from C10_no_heartbeat_available [OF h, of alice "[TimeoutFired]"] h alice_valid
  show ?thesis by auto
qed

text \<open>
  C4 fails on the code for a device without \<open>last_seen\<close>: the presence document has
  status \<open>online\<close> and no heartbeat, \<^verbatim>\<open>checkDeviceStatus\<close> reports it available and the
  command is written, while \<^verbatim>\<open>getAvailableDevices\<close> reports the same device as not online.
\<close>

theorem C4_silent_device_accepted:
  "devices gym1_silent_env (''gym1'', ''dev1'') = Some [(''status'', JStr ''online'')]
   \<and> available (checkDeviceStatus gym1_silent_env ''gym1'' ''dev1'')
   \<and> createMemberAndStartEnrollment gym1_silent_env ''gym1'' alice ''dev1'' []
      = (Pending, [SetDoc (CommandPath ''gym1'' ''dev1'') gym1_command])
   \<and> getAvailableDevices_isOnline gym1_silent_env [(''status'', JStr ''online'')] = Inr False"
proof -
  have a: "available (checkDeviceStatus gym1_silent_env ''gym1'' ''dev1'')"
    by (simp add: checkDeviceStatus_def gym1_silent_env_def gym1_env_def get_field_def)
  have t: "tempEnrollmentId gym1_silent_env = ''temp_2000_abc123xyz''"
    using gym1_tempId by (simp add: tempEnrollmentId_def gym1_silent_env_def)
  have c: "enrollmentCommand gym1_silent_env alice = gym1_command"
    by (simp add: enrollmentCommand_def gym1_command_def t alice_def get_field_def)
  have w: "createMemberAndStartEnrollment gym1_silent_env ''gym1'' alice ''dev1'' []
      = (Pending, [SetDoc (CommandPath ''gym1'' ''dev1'') gym1_command])"
    by (simp add: create_checked [OF alice_valid a] enrollment_wait_def wait_start_def c)
  have d: "devices gym1_silent_env (''gym1'', ''dev1'') = Some [(''status'', JStr ''online'')]"
    by (simp add: gym1_silent_env_def)
  have s: "getAvailableDevices_isOnline gym1_silent_env [(''status'', JStr ''online'')] = Inr False"
    by (simp add: getAvailableDevices_isOnline_def get_field_def)
  show ?thesis
    using a w d s by simp
qed

subsection \<open>Validation\<close>

text \<open>
  \<open>ToNumber\<close> on the strings of an age field, and which of them the age check refuses.
  The last four are the strings next to the bounds whose nearest double is, or is not,
  the bound itself.
\<close>

lemmas number_defs = string_to_number_def js_trim_def js_whitespace_def radix_literal_def
  unsigned_decimal_def exponent_part_def strip_sign_def is_negative_def is_digit_def
  is_hex_digit_def hex_val_def digits_value_def digit_val_def index_of_def pow10_def

lemma string_to_number_examples:
  "string_to_number ''0'' = Finite 0"
  "string_to_number ''25'' = Finite 25"
  "string_to_number ''0.5'' = Finite (1 / 2)"
  "string_to_number ''1e3'' = Finite 1000"
  "string_to_number ''0xFF'' = Finite 255"
  "string_to_number ''-5'' = Finite (- 5)"
  "string_to_number '' 120 '' = Finite 120"
  "string_to_number ''Infinity'' = PosInf"
  "string_to_number ''abc'' = NaN"
  "string_to_number ''1.5e-1'' = Finite (3 / 20)"
  "string_to_number ''.5'' = Finite (1 / 2)"
  "string_to_number ''1.'' = Finite 1"
  "string_to_number ''.'' = NaN"
  "string_to_number ''1e'' = NaN"
  "string_to_number ''0x'' = NaN"
  "string_to_number ''-0x10'' = NaN"
  "string_to_number ''1 2'' = NaN"
  by (simp_all add: number_defs)





subsection \<open>Protocol violations\<close>

text \<open>
  C3 fails on the code: an update with the attempt's \<open>tempId\<close>, status \<open>completed\<close> and no
  \<open>fingerprintId\<close> leaves the call pending, with the timer armed and the listener attached;
  when the timer fires later the call rejects with the timeout error.
\<close>

theorem C3_completed_without_id_ignored:
  "createMemberAndStartEnrollment gym1_env ''gym1'' alice ''dev1''
     [Snapshot (Some (device_update ''temp_2000_abc123xyz'' ''completed'' []))]
     = (Pending, [SetDoc (CommandPath ''gym1'' ''dev1'') gym1_command])
   \<and> enrollment_wait ''temp_2000_abc123xyz'' ''dev1''
       [Snapshot (Some (device_update ''temp_2000_abc123xyz'' ''completed'' []))] = wait_start
   \<and> fst (createMemberAndStartEnrollment gym1_env ''gym1'' alice ''dev1''
       [Snapshot (Some (device_update ''temp_2000_abc123xyz'' ''completed'' [])), TimeoutFired])
     = Rejected
         \<lparr>err_message = ''Enrollment timeout - ESP32 device did not respond within 3 minutes'',
          err_type = ''timeout'', err_gymId = ''gym1'', err_deviceId = ''dev1'',
          err_memberName = JStr ''Alice''\<rparr>"
proof -
  have w: "enrollment_wait ''temp_2000_abc123xyz'' ''dev1''
       [Snapshot (Some (device_update ''temp_2000_abc123xyz'' ''completed'' []))] = wait_start"
    by (simp add: enrollment_wait_def wait_start_def on_snapshot_def eval_doc)
  have w2: "enrollment_wait ''temp_2000_abc123xyz'' ''dev1''
       [Snapshot (Some (device_update ''temp_2000_abc123xyz'' ''completed'' [])), TimeoutFired]
       = \<lparr>outcome = Rejected ''Enrollment timeout - ESP32 device did not respond within 3 minutes'',
           timer = None, listening = False\<rparr>"
    by (simp add: enrollment_wait_def wait_start_def on_snapshot_def on_timeout_def reject_def
        unsubscribe_def eval_doc)
  have e: "enhance ''gym1'' ''dev1'' alice
        ''Enrollment timeout - ESP32 device did not respond within 3 minutes''
      = \<lparr>err_message = ''Enrollment timeout - ESP32 device did not respond within 3 minutes'',
          err_type = ''timeout'', err_gymId = ''gym1'', err_deviceId = ''dev1'',
          err_memberName = JStr ''Alice''\<rparr>"
    by (simp add: enhance_def getErrorType_timeout alice_def get_field_def)
  have c1: "createMemberAndStartEnrollment gym1_env ''gym1'' alice ''dev1''
     [Snapshot (Some (device_update ''temp_2000_abc123xyz'' ''completed'' []))]
     = (Pending, [SetDoc (CommandPath ''gym1'' ''dev1'') gym1_command])"
    by (simp add: create_checked [OF alice_valid gym1_available] gym1_tempId gym1_command_eq w
        wait_start_def)
  have c2: "fst (createMemberAndStartEnrollment gym1_env ''gym1'' alice ''dev1''
       [Snapshot (Some (device_update ''temp_2000_abc123xyz'' ''completed'' [])), TimeoutFired])
     = Rejected (enhance ''gym1'' ''dev1'' alice
        ''Enrollment timeout - ESP32 device did not respond within 3 minutes'')"
    by (simp add: create_checked [OF alice_valid gym1_available] gym1_tempId w2)
  show ?thesis
    using w c1 c2 e by simp
qed

end
